theory Spec2Isabelle
  imports Main "HOL-Library.Word"
begin

section \<open>The store's user-defined function FITS (DataBase::fits)\<close>

text \<open>
  \<^verbatim>\<open>DataBase::fits\<close> receives five SQL values. The second is a size, the last three are
  addresses of \<^verbatim>\<open>unsigned long\<close> counters that the function updates through pointers.
  The counters live in a store from addresses to 64-bit words, so that the model says what
  happens when two of the pointers are equal.
\<close>

type_synonym ulong = "64 word"
type_synonym store = "ulong \<Rightarrow> ulong"

definition fits :: "store \<Rightarrow> ulong \<Rightarrow> ulong \<Rightarrow> ulong \<Rightarrow> ulong \<Rightarrow> ulong \<Rightarrow> store \<times> int" where
  "fits s inode sz free num_found total_p =
     (if sz \<le> s free then
        let s1 = s(free := s free - sz);
            s2 = s1(total_p := s1 total_p + 1);
            s3 = s2(num_found := s2 num_found + 1)
        in (s3, 1)
      else
        (s(total_p := s total_p + 1), 0))"

section \<open>Data model of the transparent recall (TransRecall.cc)\<close>

text \<open>
  The enumerations. \<^verbatim>\<open>DataBase::operation\<close> and \<^verbatim>\<open>DataBase::req_state\<close> are the
  cases of \<^verbatim>\<open>DataBase::opStr\<close> and \<^verbatim>\<open>DataBase::reqStateStr\<close>.
\<close>

datatype operation = TRARECALL | SELRECALL | MIGRATION

datatype req_state = REQ_NEW | REQ_INPROGRESS | REQ_COMPLETED

text \<open>
  Modelled from the spec: the declaration of \<^verbatim>\<open>FsObj::file_state\<close> is not in the source;
  its members are the five file states the specification names.
\<close>

datatype file_state = RESIDENT | PREMIGRATED | MIGRATED | RECALLING_MIG | RECALLING_PREMIG

datatype error = GENERAL_ERROR | ATTR_FORMAT | FS_ERROR | STD_EXCEPTION | DB_ERROR | ASSERT_FAILED

datatype msgid =
    LTFSDMS0021E | LTFSDMS0023E | LTFSDMS0030E | LTFSDMS0031I | LTFSDMS0032E | LTFSDMS0033E | LTFSDMS0034I
  | LTFSDMS0036W | LTFSDMS0037W | LTFSDMS0038W | LTFSDMS0039I | LTFSDMS0073E | LTFSDMS0083I
  | LTFSDMS0084I | LTFSDMS0097W | LTFSDMS0098W

text \<open>
  Modelled from the spec: the value of \<^verbatim>\<open>Const::UNSET\<close> is not in the source; it is only
  stored (as the replica number of a transparent recall job) and compared with itself.
\<close>

definition UNSET :: int where
  "UNSET = - 1"

record fuid_t =
  fsid_h :: nat
  fsid_l :: nat
  igen :: nat
  inum :: nat

text \<open>\<^verbatim>\<open>Connector::rec_info_t\<close>; the connection handle is an opaque pointer, 0 is NULL.\<close>

record rec_info_t =
  conn_info :: nat
  toresident :: bool
  fuid :: fuid_t
  filename :: string

text \<open>The fields of \<^verbatim>\<open>struct stat\<close> the code reads; \<open>st_isreg\<close> is \<^verbatim>\<open>S_ISREG(st_mode)\<close>.\<close>

record stat =
  st_isreg :: bool
  st_size :: int
  st_mtime :: int

text \<open>\<^verbatim>\<open>FsObj::mig_attr_t\<close>: the code reads the array of tape ids at index 0 only.\<close>

record mig_attr_t =
  attr_tapeId :: "nat \<Rightarrow> string"

text \<open>Rows of JOB_QUEUE and REQUEST_QUEUE: the columns the statements of TransRecall bind.\<close>

record job =
  j_operation :: operation
  j_file_name :: "string option"
  j_req_num :: int
  j_target_state :: file_state
  j_repl_num :: int
  j_file_size :: int
  j_fuid :: fuid_t
  j_mtime_sec :: int
  j_mtime_nsec :: int
  j_last_upd :: int
  j_file_state :: file_state
  j_tape_id :: string
  j_start_block :: int
  j_conn_info :: nat

record request =
  r_operation :: operation
  r_req_num :: int
  r_tape_id :: string
  r_time_added :: int
  r_state :: req_state

subsection \<open>The collaborators: file system, tape, inventory, connector\<close>

text \<open>
  Modelled from the spec: the classes \<^verbatim>\<open>FsObj\<close>, \<^verbatim>\<open>Connector\<close>, \<^verbatim>\<open>Server\<close> and the
  inventory are not in the source. A managed file has the result of \<^verbatim>\<open>stat\<close>, a migration
  state, the migration attribute (absent when it cannot be parsed), the number of bytes
  written into it, and the list of the operations that raise on it. A tape object has a
  size, which \<^verbatim>\<open>fstat\<close> reports unless it fails, and possibly an offset at which
  \<^verbatim>\<open>read\<close> returns -1.
\<close>

datatype fsop =
    OP_stat | OP_getMigState | OP_getAttribute | OP_lock | OP_prepareRecall | OP_write
  | OP_finishRecall | OP_remAttribute

record fsobj =
  fo_stat :: stat
  fo_migstate :: file_state
  fo_attr :: "mig_attr_t option"
  fo_written :: int
  fo_faults :: "fsop list"

record tapefile =
  tf_size :: int
  tf_fstat_ok :: bool
  tf_read_error_at :: "int option"

datatype cart_state = TAPE_MOUNTED | TAPE_INUSE

record cartridge =
  c_slot :: nat
  c_state :: cart_state

record drive =
  d_slot :: nat
  d_busy :: bool

text \<open>
  What the process does that is visible from outside, in the order it happens: the
  responses to the connector, the messages, the signals on the condition of the scheduler,
  the finalisations of files, and the trace line that \<^verbatim>\<open>processFiles\<close> writes for a job
  before it recalls the file.
\<close>

datatype event =
    Respond rec_info_t bool
  | Msg msgid
  | Notify
  | FinishRecall fuid_t file_state
  | Trace_job fuid_t

text \<open>
  The state of the server and of its environment. \<open>forced_at\<close> is the number of completed
  tape reads after which another thread sets \<^verbatim>\<open>Server::forcedTerminate\<close> (never, when
  \<open>None\<close>); \<open>reads_done\<close> counts the completed \<^verbatim>\<open>read\<close> calls and \<open>bytes_read\<close> the bytes
  they returned. The \<open>uninit\<close> fields are the contents of the locals the code declares
  without initialising them.
\<close>

record world =
  files :: "fuid_t \<Rightarrow> fsobj option"
  tape_name :: "fuid_t \<Rightarrow> string \<Rightarrow> string option"
  tapes :: "string \<Rightarrow> tapefile option"
  start_block :: "string \<Rightarrow> int"
  READ_BUFFER_SIZE :: int
  now :: int
  forced_at :: "nat option"
  reads_done :: nat
  bytes_read :: int
  JOB_QUEUE :: "job list"
  REQUEST_QUEUE :: "request list"
  cartridges :: "string \<Rightarrow> cartridge option"
  drives :: "drive list"
  globalReqNumber :: int
  events :: "event list"
  uninit_stat :: stat
  uninit_state :: file_state
  uninit_attr :: mig_attr_t
  uninit_recinfo :: rec_info_t

definition MSG :: "msgid \<Rightarrow> world \<Rightarrow> world" where
  "MSG m w = w\<lparr>events := events w @ [Msg m]\<rparr>"

definition respondRecallEvent :: "rec_info_t \<Rightarrow> bool \<Rightarrow> world \<Rightarrow> world" where
  "respondRecallEvent recinfo success w = w\<lparr>events := events w @ [Respond recinfo success]\<rparr>"

definition TRACE_job :: "fuid_t \<Rightarrow> world \<Rightarrow> world" where
  "TRACE_job u w = w\<lparr>events := events w @ [Trace_job u]\<rparr>"

definition notify_one :: "world \<Rightarrow> world" where
  "notify_one w = w\<lparr>events := events w @ [Notify]\<rparr>"

definition forcedTerminate :: "world \<Rightarrow> bool" where
  "forcedTerminate w = (case forced_at w of None \<Rightarrow> False | Some t \<Rightarrow> t \<le> reads_done w)"

text \<open>The operations of \<^verbatim>\<open>FsObj\<close>; each raises when the file is gone or the operation is
  listed in the faults of the file.\<close>

definition fso_guard :: "world \<Rightarrow> fuid_t \<Rightarrow> fsop \<Rightarrow> error + fsobj" where
  "fso_guard w u op =
     (case files w u of
        None \<Rightarrow> Inl FS_ERROR
      | Some f \<Rightarrow> if op \<in> set (fo_faults f) then Inl FS_ERROR else Inr f)"

definition FsObj :: "world \<Rightarrow> rec_info_t \<Rightarrow> error + fuid_t" where
  "FsObj w recinfo =
     (case files w (fuid recinfo) of None \<Rightarrow> Inl FS_ERROR | Some f \<Rightarrow> Inr (fuid recinfo))"

definition fso_stat :: "world \<Rightarrow> fuid_t \<Rightarrow> error + stat" where
  "fso_stat w u = map_sum id fo_stat (fso_guard w u OP_stat)"

definition getMigState :: "world \<Rightarrow> fuid_t \<Rightarrow> error + file_state" where
  "getMigState w u = map_sum id fo_migstate (fso_guard w u OP_getMigState)"

definition getAttribute :: "world \<Rightarrow> fuid_t \<Rightarrow> error + mig_attr_t" where
  "getAttribute w u =
     (case fso_guard w u OP_getAttribute of
        Inl e \<Rightarrow> Inl e
      | Inr f \<Rightarrow> (case fo_attr f of None \<Rightarrow> Inl ATTR_FORMAT | Some a \<Rightarrow> Inr a))"

definition fso_lock :: "world \<Rightarrow> fuid_t \<Rightarrow> error + unit" where
  "fso_lock w u = map_sum id (\<lambda>_. ()) (fso_guard w u OP_lock)"

definition prepareRecall :: "world \<Rightarrow> fuid_t \<Rightarrow> error + unit" where
  "prepareRecall w u = map_sum id (\<lambda>_. ()) (fso_guard w u OP_prepareRecall)"

text \<open>\<^verbatim>\<open>FsObj::write\<close> returns the number of bytes written: all of them, or none on a fault.\<close>

definition fso_write :: "world \<Rightarrow> fuid_t \<Rightarrow> int \<Rightarrow> int \<Rightarrow> int \<times> world" where
  "fso_write w u offset n =
     (case fso_guard w u OP_write of
        Inl e \<Rightarrow> (0, w)
      | Inr f \<Rightarrow> (n, w\<lparr>files := (files w)(u \<mapsto> f\<lparr>fo_written := fo_written f + n\<rparr>)\<rparr>))"

definition finishRecall :: "world \<Rightarrow> fuid_t \<Rightarrow> file_state \<Rightarrow> error + world" where
  "finishRecall w u st =
     (case fso_guard w u OP_finishRecall of
        Inl e \<Rightarrow> Inl e
      | Inr f \<Rightarrow> Inr (w\<lparr>files := (files w)(u \<mapsto> f\<lparr>fo_migstate := st\<rparr>),
                       events := events w @ [FinishRecall u st]\<rparr>))"

definition remAttribute :: "world \<Rightarrow> fuid_t \<Rightarrow> error + world" where
  "remAttribute w u =
     (case fso_guard w u OP_remAttribute of
        Inl e \<Rightarrow> Inl e
      | Inr f \<Rightarrow> Inr (w\<lparr>files := (files w)(u \<mapsto> f\<lparr>fo_attr := None\<rparr>)\<rparr>))"

definition getTapeName :: "world \<Rightarrow> fuid_t \<Rightarrow> string \<Rightarrow> error + string" where
  "getTapeName w u tapeId =
     (case tape_name w u tapeId of None \<Rightarrow> Inl GENERAL_ERROR | Some n \<Rightarrow> Inr n)"

definition getStartBlock :: "world \<Rightarrow> string \<Rightarrow> int" where
  "getStartBlock w tapeName = start_block w tapeName"

text \<open>\<^verbatim>\<open>read(fd, buffer, sizeof(buffer))\<close> at the position \<open>pos\<close> of the tape object: -1 on
  an error, else the bytes that are left, at most a buffer full.\<close>

definition tape_read :: "tapefile \<Rightarrow> int \<Rightarrow> int \<Rightarrow> int" where
  "tape_read tf pos bufsize =
     (if tf_read_error_at tf = Some pos then - 1
      else max 0 (min bufsize (tf_size tf - pos)))"

section \<open>TransRecall::recall\<close>

text \<open>
  The copy loop of \<^verbatim>\<open>recall\<close> (\<^verbatim>\<open>while (offset < statbuf.st_size)\<close>). The position of
  the tape descriptor is the number of bytes read so far, which is \<open>offset\<close>. A raise leaves
  the loop with \<open>Inl\<close>; what was read and written until then stays in the world.
  \<open>after_read\<close> is the world after one more \<^verbatim>\<open>read\<close> that returned \<open>rsize\<close>.
\<close>

definition after_read :: "world \<Rightarrow> int \<Rightarrow> world" where
  "after_read w rsize =
     w\<lparr>reads_done := Suc (reads_done w), bytes_read := bytes_read w + max 0 rsize\<rparr>"

function copy_loop :: "world \<Rightarrow> fuid_t \<Rightarrow> tapefile \<Rightarrow> int \<Rightarrow> int \<Rightarrow> (error + unit) \<times> world" where
  "copy_loop w u tf offset fsize =
     (if offset < fsize then
        if forcedTerminate w then (Inl GENERAL_ERROR, w)
        else
          let rsize = tape_read tf offset (READ_BUFFER_SIZE w);
              w1 = after_read w rsize
          in if rsize = 0 then (Inr (), w1)
             else if rsize = - 1 then (Inl GENERAL_ERROR, MSG LTFSDMS0023E w1)
             else
               let wr = fso_write w1 u offset rsize
               in if fst wr \<noteq> rsize then (Inl GENERAL_ERROR, MSG LTFSDMS0033E (snd wr))
                  else copy_loop (snd wr) u tf (offset + rsize) fsize
      else (Inr (), w))"
  by pat_completeness auto
termination
proof (relation "measure (\<lambda>(w, u, tf, offset, fsize). nat (fsize - offset))")
  show "wf (measure (\<lambda>(w, u, tf, offset, fsize). nat (fsize - offset)))"
    by simp
next
  fix w :: world and u :: fuid_t and tf :: tapefile and offset fsize rsize :: int
    and w1 :: world and wr :: "int \<times> world"
  assume "offset < fsize" "rsize = tape_read tf offset (READ_BUFFER_SIZE w)"
    "rsize \<noteq> 0" "rsize \<noteq> - 1"
  then have "0 < rsize"
    by (auto simp: tape_read_def split: if_splits)
  then show "((snd wr, u, tf, offset + rsize, fsize), (w, u, tf, offset, fsize))
       \<in> measure (\<lambda>(w, u, tf, offset, fsize). nat (fsize - offset))"
    using \<open>offset < fsize\<close> by simp
qed

declare copy_loop.simps [simp del]

text \<open>
  The branch \<^verbatim>\<open>state == FsObj::MIGRATED\<close> of \<^verbatim>\<open>recall\<close>: open the tape object, compare
  the sizes, prepare the file and copy. It returns the size and the target state the rest of
  \<^verbatim>\<open>recall\<close> goes on with.
\<close>

definition recall_migrated ::
  "world \<Rightarrow> rec_info_t \<Rightarrow> fuid_t \<Rightarrow> string \<Rightarrow> file_state \<Rightarrow> (error + int \<times> file_state) \<times> world" where
  "recall_migrated w recinfo u tapeId toState =
     (case getTapeName w (fuid recinfo) tapeId of
        Inl e \<Rightarrow> (Inl e, w)
      | Inr tapeName \<Rightarrow>
     (case tapes w tapeName of
        None \<Rightarrow> (Inl GENERAL_ERROR, MSG LTFSDMS0021E w)
      | Some tf \<Rightarrow>
     (case fso_stat w u of
        Inl e \<Rightarrow> (Inl e, w)
      | Inr statbuf \<Rightarrow>
          let mismatch = (tf_fstat_ok tf \<and> tf_size tf \<noteq> st_size statbuf);
              w1 = (if mismatch
                    then (if length (filename recinfo) \<noteq> 0 then MSG LTFSDMS0097W w
                          else MSG LTFSDMS0098W w)
                    else w);
              fsize = (if mismatch then tf_size tf else st_size statbuf);
              toState1 = (if mismatch then RESIDENT else toState)
          in (case prepareRecall w1 u of
                Inl e \<Rightarrow> (Inl e, w1)
              | Inr _ \<Rightarrow>
                  (let cl = copy_loop w1 u tf 0 fsize
                   in case fst cl of
                        Inl e \<Rightarrow> (Inl e, snd cl)
                      | Inr _ \<Rightarrow> (Inr (fsize, toState1), snd cl))))))"

text \<open>The end of the \<^verbatim>\<open>try\<close> block of \<^verbatim>\<open>recall\<close>: finalise the file to the target state
  and, when that is resident, remove the migration attributes.\<close>

definition recall_finish :: "world \<Rightarrow> fuid_t \<Rightarrow> int \<Rightarrow> file_state \<Rightarrow> (error + int) \<times> world" where
  "recall_finish w target fsize toState =
     (case finishRecall w target toState of
        Inl e \<Rightarrow> (Inl e, w)
      | Inr w1 \<Rightarrow>
          if toState = RESIDENT
          then (case remAttribute w1 target of
                  Inl e \<Rightarrow> (Inl e, w1)
                | Inr w2 \<Rightarrow> (Inr fsize, w2))
          else (Inr fsize, w1))"

text \<open>
  The \<^verbatim>\<open>try\<close> block of \<^verbatim>\<open>recall\<close>. When the file is not migrated the returned size is
  the uninitialised \<^verbatim>\<open>statbuf.st_size\<close>.
\<close>

definition recall_try ::
  "world \<Rightarrow> rec_info_t \<Rightarrow> string \<Rightarrow> file_state \<Rightarrow> file_state \<Rightarrow> (error + int) \<times> world" where
  "recall_try w recinfo tapeId state toState =
     (case FsObj w recinfo of
        Inl e \<Rightarrow> (Inl e, w)
      | Inr target \<Rightarrow>
     (case fso_lock w target of
        Inl e \<Rightarrow> (Inl e, w)
      | Inr _ \<Rightarrow>
     (case getMigState w target of
        Inl e \<Rightarrow> (Inl e, w)
      | Inr curstate \<Rightarrow>
          let w1 = (if curstate \<noteq> state then MSG LTFSDMS0034I w else w);
              state1 = (if curstate \<noteq> state then curstate else state)
          in if state1 = RESIDENT then (Inr 0, w1)
             else if state1 = MIGRATED
             then (let rm = recall_migrated w1 recinfo target tapeId toState
                   in case fst rm of
                        Inl e \<Rightarrow> (Inl e, snd rm)
                      | Inr p \<Rightarrow> recall_finish (snd rm) target (fst p) (snd p))
             else recall_finish w1 target (st_size (uninit_stat w1)) toState)))"

text \<open>
  \<^verbatim>\<open>TransRecall::recall\<close>: the handler replaces every exception of the \<^verbatim>\<open>try\<close> block by
  \<^verbatim>\<open>GENERAL_ERROR\<close>.
\<close>

definition recall ::
  "world \<Rightarrow> rec_info_t \<Rightarrow> string \<Rightarrow> file_state \<Rightarrow> file_state \<Rightarrow> (error + int) \<times> world" where
  "recall w recinfo tapeId state toState =
     (let r = recall_try w recinfo tapeId state toState
      in case fst r of
           Inl e \<Rightarrow> (Inl GENERAL_ERROR, snd r)
         | Inr n \<Rightarrow> (Inr n, snd r))"

section \<open>The statements on the queue store\<close>

text \<open>
  Modelled from the spec: the texts of the SQL statements of \<^verbatim>\<open>TransRecall\<close> are not in
  the source, only the places that bind their parameters. Each statement is modelled from
  the specification of the step that runs it, with the parameters in the order the source
  binds them. The tables keep their rows in insertion order.
\<close>

definition claimed :: "int \<Rightarrow> file_state \<Rightarrow> file_state \<Rightarrow> string \<Rightarrow> job \<Rightarrow> bool" where
  "claimed reqNum st1 st2 tapeId j \<longleftrightarrow>
     j_req_num j = reqNum \<and> (j_file_state j = st1 \<or> j_file_state j = st2) \<and> j_tape_id j = tapeId"

text \<open>Phase A: bulk-update the jobs of (reqNum, tapeId) in state \<open>old\<close> to state \<open>new\<close>.\<close>

definition SET_RECALLING :: "file_state \<Rightarrow> int \<Rightarrow> file_state \<Rightarrow> string \<Rightarrow> world \<Rightarrow> world" where
  "SET_RECALLING new reqNum old tapeId w =
     w\<lparr>JOB_QUEUE :=
         map (\<lambda>j. if j_req_num j = reqNum \<and> j_file_state j = old \<and> j_tape_id j = tapeId
                  then j\<lparr>j_file_state := new\<rparr> else j)
             (JOB_QUEUE w)\<rparr>"

text \<open>Phase B: the claimed jobs ordered by start block ascending, ties in insertion order.\<close>

definition SELECT_JOBS :: "int \<Rightarrow> file_state \<Rightarrow> file_state \<Rightarrow> string \<Rightarrow> world \<Rightarrow> job list" where
  "SELECT_JOBS reqNum st1 st2 tapeId w =
     sort_key j_start_block (filter (claimed reqNum st1 st2 tapeId) (JOB_QUEUE w))"

text \<open>Phase C: bulk-delete the claimed jobs.\<close>

definition DELETE_JOBS :: "int \<Rightarrow> file_state \<Rightarrow> file_state \<Rightarrow> string \<Rightarrow> world \<Rightarrow> world" where
  "DELETE_JOBS reqNum st1 st2 tapeId w =
     w\<lparr>JOB_QUEUE := filter (\<lambda>j. \<not> claimed reqNum st1 st2 tapeId j) (JOB_QUEUE w)\<rparr>"

definition COUNT_REMAINING_JOBS :: "int \<Rightarrow> string \<Rightarrow> world \<Rightarrow> int" where
  "COUNT_REMAINING_JOBS reqNum tapeId w =
     int (length (filter (\<lambda>j. j_req_num j = reqNum \<and> j_tape_id j = tapeId) (JOB_QUEUE w)))"

definition CHANGE_REQUEST_TO_NEW :: "req_state \<Rightarrow> int \<Rightarrow> string \<Rightarrow> world \<Rightarrow> world" where
  "CHANGE_REQUEST_TO_NEW st reqNum tapeId w =
     w\<lparr>REQUEST_QUEUE :=
         map (\<lambda>r. if r_req_num r = reqNum \<and> r_tape_id r = tapeId then r\<lparr>r_state := st\<rparr> else r)
             (REQUEST_QUEUE w)\<rparr>"

definition DELETE_REQUEST :: "int \<Rightarrow> string \<Rightarrow> world \<Rightarrow> world" where
  "DELETE_REQUEST reqNum tapeId w =
     w\<lparr>REQUEST_QUEUE :=
         filter (\<lambda>r. \<not> (r_req_num r = reqNum \<and> r_tape_id r = tapeId)) (REQUEST_QUEUE w)\<rparr>"

definition CHECK_REQUEST_EXISTS :: "int \<Rightarrow> world \<Rightarrow> request list" where
  "CHECK_REQUEST_EXISTS reqNum w = filter (\<lambda>r. r_req_num r = reqNum) (REQUEST_QUEUE w)"

definition ADD_REQUEST :: "operation \<Rightarrow> int \<Rightarrow> string \<Rightarrow> int \<Rightarrow> req_state \<Rightarrow> world \<Rightarrow> world" where
  "ADD_REQUEST op reqNum tapeId time_added st w =
     w\<lparr>REQUEST_QUEUE := REQUEST_QUEUE w @
         [\<lparr>r_operation = op, r_req_num = reqNum, r_tape_id = tapeId,
           r_time_added = time_added, r_state = st\<rparr>]\<rparr>"

text \<open>
  The two unique constraints of JOB_QUEUE in \<^verbatim>\<open>DataBase::createTables\<close>: on (file name,
  replica number), where a file name that is NULL equals no other, and on (file uid, replica
  number). An insert that breaks one raises.
\<close>

definition job_conflict :: "job \<Rightarrow> job \<Rightarrow> bool" where
  "job_conflict j k \<longleftrightarrow>
     (j_file_name j \<noteq> None \<and> j_file_name j = j_file_name k \<and> j_repl_num j = j_repl_num k)
     \<or> (j_fuid j = j_fuid k \<and> j_repl_num j = j_repl_num k)"

definition ADD_JOB :: "job \<Rightarrow> world \<Rightarrow> error + world" where
  "ADD_JOB j w =
     (if list_ex (job_conflict j) (JOB_QUEUE w) then Inl DB_ERROR
      else Inr (w\<lparr>JOB_QUEUE := JOB_QUEUE w @ [j]\<rparr>))"


section \<open>TransRecall::processFiles and TransRecall::execRequest\<close>

text \<open>
  What \<^verbatim>\<open>stmt.step\<close> writes into the locals for one row: the file uid, the file name (empty
  for NULL) and the connection handle go into \<open>recinfo\<close>, which keeps its other field from
  the row before.
\<close>

definition step_recinfo :: "job \<Rightarrow> rec_info_t \<Rightarrow> rec_info_t" where
  "step_recinfo row recinfo =
     recinfo\<lparr>fuid := j_fuid row,
             filename := (case j_file_name row of None \<Rightarrow> [] | Some n \<Rightarrow> n),
             conn_info := j_conn_info row\<rparr>"

text \<open>The body of the loop over the selected rows, for one row.\<close>

definition process_row ::
  "string \<Rightarrow> job \<Rightarrow> world \<times> rec_info_t \<Rightarrow> (world \<times> rec_info_t) \<times> (rec_info_t \<times> bool)" where
  "process_row tapeId row s =
     (let recinfo1 = step_recinfo row (snd s);
          state = (if j_file_state row = RECALLING_MIG then MIGRATED else PREMIGRATED);
          toState = j_target_state row;
          recinfo2 = (if toState = RESIDENT then recinfo1\<lparr>toresident := True\<rparr> else recinfo1);
          w = TRACE_job (fuid recinfo2) (fst s);
          r = recall w recinfo2 tapeId state toState;
          succeeded = (case fst r of Inl e \<Rightarrow> False | Inr n \<Rightarrow> True)
      in ((snd r, recinfo2), (recinfo2, succeeded)))"

fun process_rows ::
  "string \<Rightarrow> job list \<Rightarrow> world \<times> rec_info_t \<Rightarrow> (rec_info_t \<times> bool) list
   \<Rightarrow> world \<times> (rec_info_t \<times> bool) list" where
  "process_rows tapeId [] s resplist = (fst s, resplist)"
| "process_rows tapeId (row # rows) s resplist =
     (case process_row tapeId row s of
        (s1, resp) \<Rightarrow> process_rows tapeId rows s1 (resplist @ [resp]))"

fun respond_all :: "(rec_info_t \<times> bool) list \<Rightarrow> world \<Rightarrow> world" where
  "respond_all [] w = w"
| "respond_all (respinfo # resplist) w =
     respond_all resplist (respondRecallEvent (fst respinfo) (snd respinfo) w)"

text \<open>Phase A of \<^verbatim>\<open>processFiles\<close>: the two \<^verbatim>\<open>SET_RECALLING\<close> statements.\<close>

definition claim_jobs :: "world \<Rightarrow> int \<Rightarrow> string \<Rightarrow> world" where
  "claim_jobs w reqNum tapeId =
     SET_RECALLING RECALLING_PREMIG reqNum PREMIGRATED tapeId
       (SET_RECALLING RECALLING_MIG reqNum MIGRATED tapeId w)"

definition processFiles :: "world \<Rightarrow> int \<Rightarrow> string \<Rightarrow> world" where
  "processFiles w reqNum tapeId =
     (let w2 = claim_jobs w reqNum tapeId;
          rows = SELECT_JOBS reqNum RECALLING_MIG RECALLING_PREMIG tapeId w2;
          res = process_rows tapeId rows (w2, uninit_recinfo w2) [];
          w3 = DELETE_JOBS reqNum RECALLING_MIG RECALLING_PREMIG tapeId (fst res)
      in respond_all (snd res) w3)"

text \<open>The loop over the drives of \<^verbatim>\<open>execRequest\<close>: the first drive in the slot of the
  cartridge is set free; \<open>None\<close> when there is none (\<^verbatim>\<open>found\<close> stays false).\<close>

fun setFree_first :: "nat \<Rightarrow> drive list \<Rightarrow> drive list option" where
  "setFree_first slot [] = None"
| "setFree_first slot (d # ds) =
     (if d_slot d = slot then Some (d\<lparr>d_busy := False\<rparr> # ds)
      else map_option (\<lambda>ds'. d # ds') (setFree_first slot ds))"

text \<open>
  \<^verbatim>\<open>TransRecall::execRequest\<close>. A cartridge the inventory does not know is a null pointer
  that is dereferenced, and a cartridge in no drive fails the assertion: both end the
  process.
\<close>

definition execRequest :: "world \<Rightarrow> int \<Rightarrow> string \<Rightarrow> error + world" where
  "execRequest w reqNum tapeId =
     (let w1 = processFiles w reqNum tapeId
      in case cartridges w1 tapeId of
           None \<Rightarrow> Inl STD_EXCEPTION
         | Some c \<Rightarrow>
             (case setFree_first (c_slot c) (drives w1) of
                None \<Rightarrow> Inl ASSERT_FAILED
              | Some ds \<Rightarrow>
                  let w2 = w1\<lparr>cartridges := (cartridges w1)(tapeId \<mapsto> c\<lparr>c_state := TAPE_MOUNTED\<rparr>),
                              drives := ds\<rparr>;
                      remaining = COUNT_REMAINING_JOBS reqNum tapeId w2;
                      w3 = (if remaining \<noteq> 0
                            then CHANGE_REQUEST_TO_NEW REQ_NEW reqNum tapeId w2
                            else DELETE_REQUEST reqNum tapeId w2)
                  in Inr (notify_one w3)))"

section \<open>TransRecall::addJob\<close>

text \<open>The locals of \<^verbatim>\<open>addJob\<close> that the \<^verbatim>\<open>try\<close> block assigns.\<close>

record addJob_locals =
  l_statbuf :: stat
  l_state :: file_state
  l_attr :: mig_attr_t
  l_tapeName :: string

text \<open>
  The handler of the \<^verbatim>\<open>try\<close> block: it logs and does not return, so control goes on
  behind the block with the locals as they were when the exception was raised.
\<close>

definition addJob_catch :: "string \<Rightarrow> world \<Rightarrow> world" where
  "addJob_catch sqlname w =
     (if sqlname \<noteq> ''NULL'' then MSG LTFSDMS0073E w else MSG LTFSDMS0032E w)"

text \<open>
  The \<^verbatim>\<open>try\<close> block with its handler. \<open>Inl w\<close>: the function has returned inside the
  block. \<open>Inr (l, w)\<close>: control reaches the statement behind the block, with the locals \<open>l\<close>.
\<close>

definition addJob_try ::
  "world \<Rightarrow> rec_info_t \<Rightarrow> string \<Rightarrow> string \<Rightarrow> world + addJob_locals \<times> world" where
  "addJob_try w recinfo tapeId sqlname =
     (let l0 = \<lparr>l_statbuf = uninit_stat w, l_state = uninit_state w, l_attr = uninit_attr w,
                l_tapeName = []\<rparr>
      in case FsObj w recinfo of
           Inl e \<Rightarrow> Inr (l0, addJob_catch sqlname w)
         | Inr fso \<Rightarrow>
        (case fso_stat w fso of
           Inl e \<Rightarrow> Inr (l0, addJob_catch sqlname w)
         | Inr statbuf \<Rightarrow>
             let l1 = l0\<lparr>l_statbuf := statbuf\<rparr>
             in if \<not> st_isreg statbuf then Inl (MSG LTFSDMS0032E w)
                else
                  (case getMigState w fso of
                     Inl e \<Rightarrow> Inr (l1, addJob_catch sqlname w)
                   | Inr state \<Rightarrow>
                       let l2 = l1\<lparr>l_state := state\<rparr>
                       in if state = RESIDENT
                          then Inl (respondRecallEvent recinfo True (MSG LTFSDMS0031I w))
                          else
                            (case getAttribute w fso of
                               Inl e \<Rightarrow> Inr (l2, addJob_catch sqlname w)
                             | Inr attr \<Rightarrow>
                                 let l3 = l2\<lparr>l_attr := attr\<rparr>
                                 in (case getTapeName w (fuid recinfo) tapeId of
                                       Inl e \<Rightarrow> Inr (l3, addJob_catch sqlname w)
                                     | Inr tapeName \<Rightarrow> Inr (l3\<lparr>l_tapeName := tapeName\<rparr>, w))))))"

text \<open>The row that \<^verbatim>\<open>ADD_JOB\<close> inserts; the text \<^verbatim>\<open>NULL\<close> for an empty file name is
  the SQL value NULL.\<close>

definition job_row :: "world \<Rightarrow> rec_info_t \<Rightarrow> string \<Rightarrow> int \<Rightarrow> addJob_locals \<Rightarrow> job" where
  "job_row w recinfo tapeId reqNum l =
     \<lparr>j_operation = TRARECALL,
      j_file_name = (if filename recinfo = [] then None else Some (filename recinfo)),
      j_req_num = reqNum,
      j_target_state = (if toresident recinfo then RESIDENT else PREMIGRATED),
      j_repl_num = UNSET,
      j_file_size = st_size (l_statbuf l),
      j_fuid = fuid recinfo,
      j_mtime_sec = st_mtime (l_statbuf l),
      j_mtime_nsec = 0,
      j_last_upd = now w,
      j_file_state = l_state l,
      j_tape_id = tapeId,
      j_start_block = getStartBlock w (l_tapeName l),
      j_conn_info = conn_info recinfo\<rparr>"

text \<open>\<^verbatim>\<open>TransRecall::addJob\<close>; \<open>sqlname\<close> is its local \<^verbatim>\<open>filename\<close>. An exception of the
  insert leaves the function.\<close>

definition addJob :: "world \<Rightarrow> rec_info_t \<Rightarrow> string \<Rightarrow> int \<Rightarrow> (error + unit) \<times> world" where
  "addJob w recinfo tapeId reqNum =
     (let sqlname = (if filename recinfo = [] then ''NULL''
                      else [CHR 0x27] @ filename recinfo @ [CHR 0x27])
      in case addJob_try w recinfo tapeId sqlname of
           Inl w1 \<Rightarrow> (Inr (), w1)
         | Inr (l, w1) \<Rightarrow>
             (case ADD_JOB (job_row w1 recinfo tapeId reqNum l) w1 of
                Inl e \<Rightarrow> (Inl e, w1)
              | Inr w2 \<Rightarrow>
                  let reqExists = (CHECK_REQUEST_EXISTS reqNum w2 \<noteq> [])
                  in if reqExists
                     then (Inr (), notify_one (CHANGE_REQUEST_TO_NEW REQ_NEW reqNum tapeId w2))
                     else (Inr (), notify_one
                             (ADD_REQUEST TRARECALL reqNum (attr_tapeId (l_attr l) 0) (now w2)
                                REQ_NEW w2))))"

section \<open>TransRecall::cleanupEvents and TransRecall::run\<close>



text \<open>
  The locals of \<^verbatim>\<open>run\<close> that live across the iterations of the event loop, and the tasks
  that wait in the thread pool \<^verbatim>\<open>wqr\<close>: the arguments of the calls of \<^verbatim>\<open>addJob\<close>.
\<close>

record receiver =
  rc_recinfo :: rec_info_t
  rc_reqmap :: "string \<Rightarrow> int option"
  rc_tapeId :: string
  rc_pool :: "(rec_info_t \<times> string \<times> int) list"

text \<open>The two handlers of the \<^verbatim>\<open>try\<close> block of the event loop: both respond failure.\<close>

definition run_catch :: "error \<Rightarrow> rec_info_t \<Rightarrow> world \<Rightarrow> world" where
  "run_catch e recinfo w =
     respondRecallEvent recinfo False
       (case e of
          STD_EXCEPTION \<Rightarrow> w
        | ATTR_FORMAT \<Rightarrow> MSG LTFSDMS0037W w
        | _ \<Rightarrow> MSG LTFSDMS0038W w)"

text \<open>
  One iteration of the event loop. \<open>ev\<close> is what \<^verbatim>\<open>connector->getEvents()\<close> does in this
  iteration (\<open>Inl\<close>: it raises, and \<open>recinfo\<close> keeps the event of the iteration before);
  \<open>terminate\<close> is the value of \<^verbatim>\<open>Server::terminate\<close> when the loop reads it.
\<close>

definition run_iteration ::
  "error + rec_info_t \<Rightarrow> bool \<Rightarrow> receiver \<times> world \<Rightarrow> receiver \<times> world" where
  "run_iteration ev terminate s =
     (let w1 = (case ev of Inl e \<Rightarrow> MSG LTFSDMS0036W (snd s) | Inr r \<Rightarrow> snd s);
          recinfo = (case ev of Inl e \<Rightarrow> rc_recinfo (fst s) | Inr r \<Rightarrow> r);
          rc = (fst s)\<lparr>rc_recinfo := recinfo\<rparr>
      in if conn_info recinfo = 0 then (rc, w1)
         else if terminate then (rc, respondRecallEvent recinfo False w1)
         else if inum (fuid recinfo) = 0 then (rc, w1)
         else
           (case FsObj w1 recinfo of
              Inl e \<Rightarrow> (rc, run_catch e recinfo w1)
            | Inr fso \<Rightarrow>
           (case getMigState w1 fso of
              Inl e \<Rightarrow> (rc, run_catch e recinfo w1)
            | Inr st \<Rightarrow>
                if st = RESIDENT
                then (case finishRecall w1 fso RESIDENT of
                        Inl e \<Rightarrow> (rc, run_catch e recinfo w1)
                      | Inr w2 \<Rightarrow> (rc, respondRecallEvent recinfo True (MSG LTFSDMS0039I w2)))
                else
                  (case getAttribute w1 fso of
                     Inl e \<Rightarrow> (rc, run_catch e recinfo w1)
                   | Inr attr \<Rightarrow>
                       let tapeId = attr_tapeId attr 0;
                           w2 = (if rc_reqmap rc tapeId = None
                                 then w1\<lparr>globalReqNumber := globalReqNumber w1 + 1\<rparr> else w1);
                           reqmap = (if rc_reqmap rc tapeId = None
                                     then (rc_reqmap rc)(tapeId \<mapsto> globalReqNumber w2)
                                     else rc_reqmap rc);
                           reqNum = (case reqmap tapeId of None \<Rightarrow> 0 | Some n \<Rightarrow> n)
                       in (rc\<lparr>rc_reqmap := reqmap, rc_tapeId := tapeId,
                              rc_pool := rc_pool rc @ [(recinfo, tapeId, reqNum)]\<rparr>, w2)))))"

section \<open>The life of the event receiver\<close>






text \<open>The outcomes of the responses that were sent for the connection handle \<open>c\<close>.\<close>

fun responses_to :: "nat \<Rightarrow> event list \<Rightarrow> bool list" where
  "responses_to c [] = []"
| "responses_to c (Respond ri ok # es) =
     (if conn_info ri = c then ok # responses_to c es else responses_to c es)"
| "responses_to c (e # es) = responses_to c es"

section \<open>Observations on the events and on the store\<close>

text \<open>The file uids of the trace lines of \<^verbatim>\<open>processFiles\<close>, in the order they were
  written: the order in which the jobs were processed.\<close>

fun traced :: "event list \<Rightarrow> fuid_t list" where
  "traced [] = []"
| "traced (Trace_job u # es) = u # traced es"
| "traced (e # es) = traced es"

text \<open>The rows that one call of \<^verbatim>\<open>processFiles\<close> selects: the jobs it has claimed in
  Phase A, in the order of \<^verbatim>\<open>SELECT_JOBS\<close>.\<close>

definition claimed_rows :: "world \<Rightarrow> int \<Rightarrow> string \<Rightarrow> job list" where
  "claimed_rows w reqNum tapeId =
     SELECT_JOBS reqNum RECALLING_MIG RECALLING_PREMIG tapeId (claim_jobs w reqNum tapeId)"

text \<open>
  Events that are neither a response nor a signal nor a trace line, and the relation
  between a world and a later one when only such events have happened and neither the store
  nor the inventory nor what \<^verbatim>\<open>stat\<close> says of a file has changed: what \<^verbatim>\<open>recall\<close> may do
  to the world.
\<close>

definition silent :: "event \<Rightarrow> bool" where
  "silent e = (case e of Msg m \<Rightarrow> True | FinishRecall u st \<Rightarrow> True | _ \<Rightarrow> False)"

definition frame :: "world \<Rightarrow> world \<Rightarrow> bool" where
  "frame w w' \<longleftrightarrow>
     JOB_QUEUE w' = JOB_QUEUE w \<and> REQUEST_QUEUE w' = REQUEST_QUEUE w
     \<and> forced_at w' = forced_at w \<and> reads_done w \<le> reads_done w'
     \<and> uninit_recinfo w' = uninit_recinfo w
     \<and> cartridges w' = cartridges w \<and> drives w' = drives w
     \<and> (\<forall>u. map_option fo_stat (files w' u) = map_option fo_stat (files w u))
     \<and> (\<exists>es. events w' = events w @ es \<and> list_all silent es)"

definition quiet :: "event \<Rightarrow> bool" where
  "quiet e = (case e of Respond ri ok \<Rightarrow> False | Notify \<Rightarrow> False | _ \<Rightarrow> True)"

definition quiet_frame :: "world \<Rightarrow> world \<Rightarrow> bool" where
  "quiet_frame w w' \<longleftrightarrow>
     JOB_QUEUE w' = JOB_QUEUE w \<and> REQUEST_QUEUE w' = REQUEST_QUEUE w
     \<and> forced_at w' = forced_at w \<and> reads_done w \<le> reads_done w'
     \<and> uninit_recinfo w' = uninit_recinfo w
     \<and> cartridges w' = cartridges w \<and> drives w' = drives w
     \<and> (\<forall>u. map_option fo_stat (files w' u) = map_option fo_stat (files w u))
     \<and> (\<exists>es. events w' = events w @ es \<and> list_all quiet es)"

section \<open>Example worlds\<close>

text \<open>
  Concrete worlds on which the theorems are evaluated, after the scenarios of the
  specification: files of one file system with the inode numbers 42 and 43, both on the
  tape T00001, a buffer of 4096 bytes, and an inventory with the cartridge in the second
  drive.
\<close>

definition uid :: "nat \<Rightarrow> fuid_t" where
  "uid i = \<lparr>fsid_h = 1, fsid_l = 1, igen = 1, inum = i\<rparr>"

definition ex_attr :: "string \<Rightarrow> mig_attr_t" where
  "ex_attr t = \<lparr>attr_tapeId = (\<lambda>i. if i = 0 then t else [])\<rparr>"

definition ex_file :: "file_state \<Rightarrow> int \<Rightarrow> fsobj" where
  "ex_file st n =
     \<lparr>fo_stat = \<lparr>st_isreg = True, st_size = n, st_mtime = 1000\<rparr>, fo_migstate = st,
      fo_attr = Some (ex_attr ''T00001''), fo_written = 0, fo_faults = []\<rparr>"

definition ex_tape :: "int \<Rightarrow> tapefile" where
  "ex_tape n = \<lparr>tf_size = n, tf_fstat_ok = True, tf_read_error_at = None\<rparr>"

definition ex_event :: "nat \<Rightarrow> nat \<Rightarrow> bool \<Rightarrow> rec_info_t" where
  "ex_event c i tores = \<lparr>conn_info = c, toresident = tores, fuid = uid i, filename = []\<rparr>"

definition ex_tape_name :: "fuid_t \<Rightarrow> string \<Rightarrow> string option" where
  "ex_tape_name u t =
     (if t = ''T00001'' \<and> inum u = 42 then Some ''/T00001/42''
      else if t = ''T00001'' \<and> inum u = 43 then Some ''/T00001/43''
      else None)"

definition ex_world :: "(nat \<times> fsobj) list \<Rightarrow> (string \<times> tapefile) list \<Rightarrow> world" where
  "ex_world fs ts =
     \<lparr>files = (\<lambda>u. if u = uid (inum u) then map_of fs (inum u) else None),
      tape_name = ex_tape_name,
      tapes = map_of ts,
      start_block = (\<lambda>n. if n = ''/T00001/42'' then 200 else if n = ''/T00001/43'' then 50
                          else UNSET),
      READ_BUFFER_SIZE = 4096,
      now = 1000,
      forced_at = None,
      reads_done = 0,
      bytes_read = 0,
      JOB_QUEUE = [],
      REQUEST_QUEUE = [],
      cartridges = (\<lambda>t. if t = ''T00001'' then Some \<lparr>c_slot = 1, c_state = TAPE_INUSE\<rparr> else None),
      drives = [\<lparr>d_slot = 0, d_busy = False\<rparr>, \<lparr>d_slot = 1, d_busy = True\<rparr>],
      globalReqNumber = 0,
      events = [],
      uninit_stat = \<lparr>st_isreg = False, st_size = 0, st_mtime = 0\<rparr>,
      uninit_state = RESIDENT,
      uninit_attr = \<lparr>attr_tapeId = (\<lambda>i. [])\<rparr>,
      uninit_recinfo = \<lparr>conn_info = 0, toresident = False, fuid = uid 0, filename = []\<rparr>\<rparr>"

definition w_mismatch :: world where
  "w_mismatch = ex_world [(42, ex_file MIGRATED 10000)] [(''/T00001/42'', ex_tape 8192)]"

definition ex_job :: "nat \<Rightarrow> nat \<Rightarrow> file_state \<Rightarrow> file_state \<Rightarrow> int \<Rightarrow> job" where
  "ex_job c i st tgt blk =
     \<lparr>j_operation = TRARECALL, j_file_name = None, j_req_num = 1, j_target_state = tgt,
      j_repl_num = UNSET, j_file_size = 8192, j_fuid = uid i, j_mtime_sec = 1000,
      j_mtime_nsec = 0, j_last_upd = 1000, j_file_state = st, j_tape_id = ''T00001'',
      j_start_block = blk, j_conn_info = c\<rparr>"

definition ex_request :: "req_state \<Rightarrow> request" where
  "ex_request st =
     \<lparr>r_operation = TRARECALL, r_req_num = 1, r_tape_id = ''T00001'', r_time_added = 1000,
      r_state = st\<rparr>"

definition w_exec :: world where
  "w_exec = (ex_world [(42, ex_file MIGRATED 8192)] [(''/T00001/42'', ex_tape 8192)])
              \<lparr>JOB_QUEUE := [ex_job 7 42 MIGRATED RESIDENT 200],
               REQUEST_QUEUE := [ex_request REQ_INPROGRESS]\<rparr>"

definition w_eof :: world where
  "w_eof = ex_world [(42, ex_file MIGRATED 100)]
             [(''/T00001/42'', \<lparr>tf_size = 0, tf_fstat_ok = False, tf_read_error_at = None\<rparr>)]"

definition w_zero :: world where
  "w_zero = ex_world [(42, ex_file MIGRATED 0)] [(''/T00001/42'', ex_tape 0)]"

definition w_zero_mismatch :: world where
  "w_zero_mismatch = ex_world [(42, ex_file MIGRATED 0)] [(''/T00001/42'', ex_tape 5)]"

text \<open>The world after a copy that has read and written \<open>n\<close> bytes in \<open>k\<close> reads.\<close>

definition copied :: "world \<Rightarrow> fuid_t \<Rightarrow> fsobj \<Rightarrow> nat \<Rightarrow> int \<Rightarrow> world" where
  "copied w u f k n =
     w\<lparr>files := (files w)(u \<mapsto> f\<lparr>fo_written := fo_written f + n\<rparr>),
       reads_done := reads_done w + k, bytes_read := bytes_read w + n\<rparr>"

text \<open>Between two worlds no tape read has happened and the forced-terminate flag has not
  changed.\<close>

definition no_read :: "world \<Rightarrow> world \<Rightarrow> bool" where
  "no_read w w' \<longleftrightarrow>
     reads_done w' = reads_done w \<and> bytes_read w' = bytes_read w \<and> forced_at w' = forced_at w"


definition w_resident :: world where
  "w_resident = ex_world [(42, ex_file RESIDENT 4096)] []"

definition w_stat_fails :: world where
  "w_stat_fails = ex_world [(42, (ex_file MIGRATED 4096)\<lparr>fo_faults := [OP_stat]\<rparr>)]
                    [(''/T00001/42'', ex_tape 4096)]"

definition w_attr_fails :: world where
  "w_attr_fails = ex_world [(42, (ex_file MIGRATED 4096)\<lparr>fo_faults := [OP_getAttribute]\<rparr>)]
                    [(''/T00001/42'', ex_tape 4096)]"

definition w_attr_other :: world where
  "w_attr_other = ex_world [(42, (ex_file MIGRATED 4096)\<lparr>fo_attr := Some (ex_attr ''T00002'')\<rparr>)]
                    [(''/T00001/42'', ex_tape 4096)]"

definition w_migstate_fails :: world where
  "w_migstate_fails = ex_world [(42, (ex_file MIGRATED 4096)\<lparr>fo_faults := [OP_getMigState]\<rparr>)]
                        [(''/T00001/42'', ex_tape 4096)]"

definition w_regular :: world where
  "w_regular = ex_world [(42, ex_file MIGRATED 4096)] [(''/T00001/42'', ex_tape 4096)]"

section \<open>Counting the responses to an event\<close>

text \<open>The numbers of job rows, of waiting pool tasks and of responses that belong to the
  connection handle \<open>c\<close>.\<close>

definition jobc :: "nat \<Rightarrow> job list \<Rightarrow> nat" where
  "jobc c js = length (filter (\<lambda>j. j_conn_info j = c) js)"




text \<open>The job row \<open>j\<close> stems from the event \<open>ri\<close>; every job row is a transparent recall of
  one of the events \<open>rs\<close>; every waiting task is for one of the events \<open>rs\<close>.\<close>

definition is_src :: "rec_info_t \<Rightarrow> job \<Rightarrow> bool" where
  "is_src ri j \<longleftrightarrow>
     j_conn_info j = conn_info ri \<and> j_fuid j = fuid ri
     \<and> j_file_name j = (if filename ri = [] then None else Some (filename ri))
     \<and> conn_info ri \<noteq> 0"



text \<open>The number of responses the event loop owes an event: none for the termination
  sentinel and for inode number 0, one otherwise.\<close>

definition expected :: "bool \<Rightarrow> rec_info_t \<Rightarrow> nat" where
  "expected terminate ri =
     (if conn_info ri = 0 then 0 else if terminate then 1
      else if inum (fuid ri) = 0 then 0 else 1)"




text \<open>The responses owed to the handle \<open>c\<close> by the events \<open>rs\<close>.\<close>

definition owed :: "nat \<Rightarrow> (rec_info_t \<times> bool) list \<Rightarrow> nat" where
  "owed c rs =
     sum_list (map (\<lambda>x. if conn_info (fst x) = c then expected (snd x) (fst x) else 0) rs)"









section \<open>Properties of FITS\<close>

text \<open>
  C10. For every call of FITS(inode, size, free*, num_found*, total*) on three distinct
  counters: the counter behind total is incremented by one; if the counter behind free is at
  least size, it is decreased by size, the counter behind num_found is incremented by one and
  the result is 1; otherwise free and num_found keep their values and the result is 0. No
  other cell of the store changes.
\<close>

theorem fits_spec:
  assumes "distinct [free, num_found, total_p]"
  shows "fst (fits s inode sz free num_found total_p) total_p = s total_p + 1
       \<and> (if sz \<le> s free
          then fst (fits s inode sz free num_found total_p) free = s free - sz
             \<and> fst (fits s inode sz free num_found total_p) num_found = s num_found + 1
             \<and> snd (fits s inode sz free num_found total_p) = 1
          else fst (fits s inode sz free num_found total_p) free = s free
             \<and> fst (fits s inode sz free num_found total_p) num_found = s num_found
             \<and> snd (fits s inode sz free num_found total_p) = 0)
       \<and> (\<forall>a. a \<notin> {free, num_found, total_p}
            \<longrightarrow> fst (fits s inode sz free num_found total_p) a = s a)"
  using assms by (auto simp: fits_def Let_def)

theorem fits_spec_witness:
  "distinct [8, 16, 24 :: ulong]
   \<and> fst (fits ((\<lambda>_. 0)(8 := 100, 16 := 2, 24 := 5)) 7 30 8 16 24) 24 = 6
   \<and> fst (fits ((\<lambda>_. 0)(8 := 100, 16 := 2, 24 := 5)) 7 30 8 16 24) 8 = 70
   \<and> fst (fits ((\<lambda>_. 0)(8 := 100, 16 := 2, 24 := 5)) 7 30 8 16 24) 16 = 3
   \<and> snd (fits ((\<lambda>_. 0)(8 := 100, 16 := 2, 24 := 5)) 7 30 8 16 24) = 1
   \<and> fst (fits ((\<lambda>_. 0)(8 := 100, 16 := 2, 24 := 5)) 7 30 8 16 24) 32 = 0"
proof -
  have d: "distinct [8, 16, 24 :: ulong]" by simp
  show ?thesis
    using d fits_spec [OF d, where s = "(\<lambda>_. 0)(8 := 100, 16 := 2, 24 := 5)" and sz = 30 and inode = 7]
    by simp
qed

section \<open>What a recall leaves unchanged\<close>

lemma frame_refl [simp]: "frame w w"
  by (simp add: frame_def)

lemma frame_trans: "frame w w1 \<Longrightarrow> frame w1 w2 \<Longrightarrow> frame w w2"
  by (auto simp: frame_def)

lemma frame_MSG [simp]: "frame w (MSG m w)"
  by (simp add: frame_def MSG_def silent_def)

lemma frame_MSG2: "frame w w1 \<Longrightarrow> frame w (MSG m w1)"
  by (blast intro: frame_trans frame_MSG)

lemma fso_guard_Inr: "fso_guard w u op = Inr f \<Longrightarrow> files w u = Some f"
  by (simp add: fso_guard_def split: option.splits if_splits)

lemma frame_write: "frame w (snd (fso_write w u off n))"
  by (auto simp: frame_def fso_write_def split: sum.splits dest: fso_guard_Inr)

lemma copy_loop_done: "\<not> offset < fsize \<Longrightarrow> copy_loop w u tf offset fsize = (Inr (), w)"
  by (subst copy_loop.simps) simp

lemma copy_loop_forced:
  "offset < fsize \<Longrightarrow> forcedTerminate w \<Longrightarrow> copy_loop w u tf offset fsize = (Inl GENERAL_ERROR, w)"
  by (subst copy_loop.simps) simp

lemma copy_loop_step:
  assumes "offset < fsize" "\<not> forcedTerminate w"
    and "rsize = tape_read tf offset (READ_BUFFER_SIZE w)"
    and "wr = fso_write (after_read w rsize) u offset rsize"
  shows "copy_loop w u tf offset fsize =
     (if rsize = 0 then (Inr (), after_read w rsize)
      else if rsize = - 1 then (Inl GENERAL_ERROR, MSG LTFSDMS0023E (after_read w rsize))
      else if fst wr \<noteq> rsize then (Inl GENERAL_ERROR, MSG LTFSDMS0033E (snd wr))
      else copy_loop (snd wr) u tf (offset + rsize) fsize)"
  using assms by (subst copy_loop.simps) (simp add: Let_def)

lemma frame_after_read: "frame w (after_read w n)"
  by (simp add: frame_def after_read_def)

lemma frame_copy_loop: "frame w (snd (copy_loop w u tf offset fsize))"
proof (induction w u tf offset fsize rule: copy_loop.induct)
  case (1 w u tf offset fsize)
  define rsize where "rsize = tape_read tf offset (READ_BUFFER_SIZE w)"
  define w1 where "w1 = after_read w rsize"
  define wr where "wr = fso_write w1 u offset rsize"
  have f1: "frame w w1" by (simp add: w1_def frame_after_read)
  have f2: "frame w (snd wr)"
    using f1 frame_write [of w1 u offset rsize] by (auto simp: wr_def intro: frame_trans)
  show ?case
  proof (cases "offset < fsize")
    case False
    then show ?thesis by (simp add: copy_loop_done)
  next
    case lt: True
    show ?thesis
    proof (cases "forcedTerminate w")
      case True
      with lt show ?thesis by (simp add: copy_loop_forced)
    next
      case nf: False
      note step = copy_loop_step [OF lt nf rsize_def, of wr u, unfolded w1_def[symmetric], OF wr_def]
      show ?thesis
      proof (cases "rsize = 0 \<or> rsize = - 1 \<or> fst wr \<noteq> rsize")
        case True
        then show ?thesis
          using f1 f2 by (auto simp: step intro: frame_MSG2)
      next
        case False
        then have "frame (snd wr) (snd (copy_loop (snd wr) u tf (offset + rsize) fsize))"
          using "1.IH" [OF lt nf rsize_def w1_def _ _ wr_def] by simp
        with f2 False show ?thesis
          by (auto simp: step intro: frame_trans)
      qed
    qed
  qed
qed

lemma frame_copy_loop2 [simp]: "frame w w1 \<Longrightarrow> frame w (snd (copy_loop w1 u tf offset fsize))"
  by (blast intro: frame_trans frame_copy_loop)

lemma frame_MSG3 [simp]: "frame w w1 \<Longrightarrow> frame w (MSG m w1)"
  by (rule frame_MSG2)

lemma frame_recall_migrated: "frame w (snd (recall_migrated w recinfo u tapeId toState))"
  by (simp add: recall_migrated_def Let_def case_prod_beta split: sum.splits option.splits)

lemma frame_recall_migrated2 [simp]:
  "frame w w1 \<Longrightarrow> frame w (snd (recall_migrated w1 recinfo u tapeId toState))"
  by (blast intro: frame_trans frame_recall_migrated)

lemma frame_finishRecall: "finishRecall w u st = Inr w' \<Longrightarrow> frame w w'"
  by (auto simp: finishRecall_def frame_def silent_def split: sum.splits dest: fso_guard_Inr)

lemma frame_remAttribute: "remAttribute w u = Inr w' \<Longrightarrow> frame w w'"
  by (auto simp: remAttribute_def frame_def split: sum.splits dest: fso_guard_Inr)

lemma frame_recall_finish: "frame w (snd (recall_finish w u fsize st))"
proof (cases "finishRecall w u st")
  case (Inl e)
  then show ?thesis by (simp add: recall_finish_def)
next
  case (Inr w1)
  note f1 = frame_finishRecall [OF Inr]
  show ?thesis
  proof (cases "remAttribute w1 u")
    case (Inl e)
    with Inr f1 show ?thesis by (simp add: recall_finish_def)
  next
    case r: (Inr w2)
    from f1 frame_remAttribute [OF r] have "frame w w2" by (rule frame_trans)
    with Inr r f1 show ?thesis by (simp add: recall_finish_def)
  qed
qed

lemma frame_recall_finish2 [simp]: "frame w w1 \<Longrightarrow> frame w (snd (recall_finish w1 u fsize st))"
  by (blast intro: frame_trans frame_recall_finish)

lemma frame_recall_try: "frame w (snd (recall_try w recinfo tapeId state toState))"
  by (simp add: recall_try_def Let_def split: sum.splits)

lemma frame_recall: "frame w (snd (recall w recinfo tapeId state toState))"
  using frame_recall_try [of w recinfo tapeId state toState]
  by (simp add: recall_def Let_def split: sum.splits)

lemma traced_append [simp]: "traced (xs @ ys) = traced xs @ traced ys"
  by (induction xs rule: traced.induct) simp_all

lemma traced_silent: "list_all silent es \<Longrightarrow> traced es = []"
  by (induction es rule: traced.induct) (simp_all add: silent_def)

lemma frame_traced: "frame w w' \<Longrightarrow> traced (events w') = traced (events w)"
  by (auto simp: frame_def traced_silent)

lemma frame_jobs: "frame w w' \<Longrightarrow> JOB_QUEUE w' = JOB_QUEUE w"
  by (simp add: frame_def)

lemma process_row_fuid: "fuid (snd (fst (process_row tapeId row s))) = j_fuid row"
  by (simp add: process_row_def Let_def step_recinfo_def)

lemma process_row_traced:
  "traced (events (fst (fst (process_row tapeId row s)))) = traced (events (fst s)) @ [j_fuid row]"
proof -
  define ri where "ri = (if j_target_state row = RESIDENT
     then (step_recinfo row (snd s))\<lparr>toresident := True\<rparr> else step_recinfo row (snd s))"
  define st where "st = (if j_file_state row = RECALLING_MIG then MIGRATED else PREMIGRATED)"
  have w: "fst (fst (process_row tapeId row s))
         = snd (recall (TRACE_job (fuid ri) (fst s)) ri tapeId st (j_target_state row))"
    by (simp add: process_row_def Let_def ri_def st_def)
  have "fuid ri = j_fuid row"
    by (simp add: ri_def step_recinfo_def)
  then show ?thesis
    unfolding w frame_traced [OF frame_recall]
    by (simp add: TRACE_job_def)
qed

lemma process_rows_traced:
  "traced (events (fst (process_rows tapeId rows s resplist)))
   = traced (events (fst s)) @ map j_fuid rows"
proof (induction rows arbitrary: s resplist)
  case Nil
  show ?case by simp
next
  case (Cons row rows)
  show ?case
    by (simp add: Cons.IH case_prod_beta process_row_traced)
qed

lemma respond_all_traced [simp]: "traced (events (respond_all resplist w)) = traced (events w)"
  by (induction resplist arbitrary: w) (simp_all add: respondRecallEvent_def)

section \<open>Order of the jobs within one execution\<close>

text \<open>
  C2. Within one call of processFiles for (reqNum, tapeId), the jobs are processed in the
  order of the selected rows, one trace line and one recall per row, and the start blocks of
  these rows are nondecreasing.
\<close>

theorem processFiles_start_block_order:
  "traced (events (processFiles w reqNum tapeId))
     = traced (events w) @ map j_fuid (claimed_rows w reqNum tapeId)
   \<and> sorted (map j_start_block (claimed_rows w reqNum tapeId))"
proof
  show "traced (events (processFiles w reqNum tapeId))
     = traced (events w) @ map j_fuid (claimed_rows w reqNum tapeId)"
    by (simp add: processFiles_def Let_def DELETE_JOBS_def process_rows_traced claimed_rows_def
        SET_RECALLING_def claim_jobs_def)
  show "sorted (map j_start_block (claimed_rows w reqNum tapeId))"
    by (simp add: claimed_rows_def SELECT_JOBS_def)
qed

section \<open>What processFiles leaves unchanged\<close>

lemma silent_quiet: "silent e \<Longrightarrow> quiet e"
  by (cases e) (simp_all add: silent_def quiet_def)

lemma frame_quiet_frame: "frame w w' \<Longrightarrow> quiet_frame w w'"
  by (auto simp: frame_def quiet_frame_def list_all_iff silent_quiet)

lemma quiet_frame_refl [simp]: "quiet_frame w w"
  by (simp add: quiet_frame_def)

lemma quiet_frame_trans: "quiet_frame w w1 \<Longrightarrow> quiet_frame w1 w2 \<Longrightarrow> quiet_frame w w2"
  by (auto simp: quiet_frame_def)

lemma quiet_frame_TRACE_job: "quiet_frame w (TRACE_job u w)"
  by (simp add: quiet_frame_def TRACE_job_def quiet_def)

lemma quiet_frame_process_row: "quiet_frame (fst s) (fst (fst (process_row tapeId row s)))"
proof -
  define ri where "ri = (if j_target_state row = RESIDENT
     then (step_recinfo row (snd s))\<lparr>toresident := True\<rparr> else step_recinfo row (snd s))"
  define st where "st = (if j_file_state row = RECALLING_MIG then MIGRATED else PREMIGRATED)"
  have w: "fst (fst (process_row tapeId row s))
         = snd (recall (TRACE_job (fuid ri) (fst s)) ri tapeId st (j_target_state row))"
    by (simp add: process_row_def Let_def ri_def st_def)
  show ?thesis
    unfolding w
    by (rule quiet_frame_trans [OF quiet_frame_TRACE_job frame_quiet_frame [OF frame_recall]])
qed

lemma quiet_frame_process_rows:
  "quiet_frame (fst s) (fst (process_rows tapeId rows s resplist))"
proof (induction rows arbitrary: s resplist)
  case Nil
  show ?case by simp
next
  case (Cons row rows)
  have "quiet_frame (fst (fst (process_row tapeId row s)))
          (fst (process_rows tapeId rows (fst (process_row tapeId row s))
             (resplist @ [snd (process_row tapeId row s)])))"
    by (rule Cons.IH)
  with quiet_frame_process_row [of s tapeId row] show ?case
    by (simp add: case_prod_beta) (blast intro: quiet_frame_trans)
qed


lemma respond_all_fields [simp]:
  "JOB_QUEUE (respond_all resplist w) = JOB_QUEUE w"
  "REQUEST_QUEUE (respond_all resplist w) = REQUEST_QUEUE w"
  "cartridges (respond_all resplist w) = cartridges w"
  "drives (respond_all resplist w) = drives w"
  by (induction resplist arbitrary: w) (simp_all add: respondRecallEvent_def)

lemma claim_jobs_fields [simp]:
  "REQUEST_QUEUE (claim_jobs w reqNum tapeId) = REQUEST_QUEUE w"
  "cartridges (claim_jobs w reqNum tapeId) = cartridges w"
  "drives (claim_jobs w reqNum tapeId) = drives w"
  "events (claim_jobs w reqNum tapeId) = events w"
  by (simp_all add: claim_jobs_def SET_RECALLING_def)

lemma processFiles_eq:
  "processFiles w reqNum tapeId =
     respond_all
       (snd (process_rows tapeId (claimed_rows w reqNum tapeId)
              (claim_jobs w reqNum tapeId, uninit_recinfo (claim_jobs w reqNum tapeId)) []))
       (DELETE_JOBS reqNum RECALLING_MIG RECALLING_PREMIG tapeId
         (fst (process_rows tapeId (claimed_rows w reqNum tapeId)
              (claim_jobs w reqNum tapeId, uninit_recinfo (claim_jobs w reqNum tapeId)) [])))"
  by (simp add: processFiles_def Let_def claimed_rows_def)

lemma quiet_frame_rows:
  "quiet_frame (claim_jobs w reqNum tapeId)
     (fst (process_rows tapeId rows
            (claim_jobs w reqNum tapeId, uninit_recinfo (claim_jobs w reqNum tapeId)) []))"
  using quiet_frame_process_rows
    [of "(claim_jobs w reqNum tapeId, uninit_recinfo (claim_jobs w reqNum tapeId))" tapeId rows "[]"]
  by simp

lemma processFiles_fields:
  "REQUEST_QUEUE (processFiles w reqNum tapeId) = REQUEST_QUEUE w"
  "cartridges (processFiles w reqNum tapeId) = cartridges w"
  "drives (processFiles w reqNum tapeId) = drives w"
proof -
  note q = quiet_frame_rows [of w reqNum tapeId "claimed_rows w reqNum tapeId"]
  show "REQUEST_QUEUE (processFiles w reqNum tapeId) = REQUEST_QUEUE w"
    using q unfolding processFiles_eq quiet_frame_def by (simp add: DELETE_JOBS_def)
  show "cartridges (processFiles w reqNum tapeId) = cartridges w"
    using q unfolding processFiles_eq quiet_frame_def by (simp add: DELETE_JOBS_def)
  show "drives (processFiles w reqNum tapeId) = drives w"
    using q unfolding processFiles_eq quiet_frame_def by (simp add: DELETE_JOBS_def)
qed

lemma processFiles_jobs:
  "JOB_QUEUE (processFiles w reqNum tapeId)
   = filter (\<lambda>j. \<not> claimed reqNum RECALLING_MIG RECALLING_PREMIG tapeId j)
       (JOB_QUEUE (claim_jobs w reqNum tapeId))"
  using quiet_frame_rows [of w reqNum tapeId "claimed_rows w reqNum tapeId"]
  unfolding processFiles_eq quiet_frame_def by (simp add: DELETE_JOBS_def)

lemma setFree_first_Some:
  "list_ex (\<lambda>d. d_slot d = slot) ds \<Longrightarrow> \<exists>ds'. setFree_first slot ds = Some ds'"
  by (induction ds) auto

section \<open>The end of a request execution\<close>

text \<open>
  C8. When the inventory knows the cartridge and a drive holds it, execRequest returns, and
  at its end the RECALLING jobs of (reqNum, tapeId) are deleted; if the count of the
  remaining jobs of (reqNum, tapeId) is greater than zero, the request rows of
  (reqNum, tapeId) are reset to REQ_NEW, otherwise they are deleted; in both cases the last
  thing that happens is the signal on the condition of the scheduler.
\<close>

theorem execRequest_request_row:
  assumes "cartridges w tapeId = Some c" and "list_ex (\<lambda>d. d_slot d = c_slot c) (drives w)"
  shows "\<exists>w'. execRequest w reqNum tapeId = Inr w'
     \<and> JOB_QUEUE w' = JOB_QUEUE (processFiles w reqNum tapeId)
     \<and> filter (claimed reqNum RECALLING_MIG RECALLING_PREMIG tapeId) (JOB_QUEUE w') = []
     \<and> REQUEST_QUEUE w' =
         (if 0 < COUNT_REMAINING_JOBS reqNum tapeId w'
          then REQUEST_QUEUE (CHANGE_REQUEST_TO_NEW REQ_NEW reqNum tapeId w)
          else REQUEST_QUEUE (DELETE_REQUEST reqNum tapeId w))
     \<and> events w' = events (processFiles w reqNum tapeId) @ [Notify]"
proof -
  define w1 where "w1 = processFiles w reqNum tapeId"
  from assms obtain ds where ds: "setFree_first (c_slot c) (drives w1) = Some ds"
    using setFree_first_Some [of "c_slot c" "drives w"] by (auto simp: w1_def processFiles_fields)
  have c: "cartridges w1 tapeId = Some c"
    using assms by (simp add: w1_def processFiles_fields)
  have rq: "REQUEST_QUEUE w1 = REQUEST_QUEUE w"
    by (simp add: w1_def processFiles_fields)
  have nonneg: "\<And>v. 0 \<le> COUNT_REMAINING_JOBS reqNum tapeId v"
    by (simp add: COUNT_REMAINING_JOBS_def)
  have del: "filter (claimed reqNum RECALLING_MIG RECALLING_PREMIG tapeId) (JOB_QUEUE w1) = []"
    by (simp add: w1_def processFiles_jobs filter_empty_conv)
  define w2 where "w2 = w1\<lparr>cartridges := (cartridges w1)(tapeId \<mapsto> c\<lparr>c_state := TAPE_MOUNTED\<rparr>),
                              drives := ds\<rparr>"
  define w3 where "w3 = (if COUNT_REMAINING_JOBS reqNum tapeId w2 \<noteq> 0
                            then CHANGE_REQUEST_TO_NEW REQ_NEW reqNum tapeId w2
                            else DELETE_REQUEST reqNum tapeId w2)"
  have ex: "execRequest w reqNum tapeId = Inr (notify_one w3)"
    using c ds by (simp add: execRequest_def Let_def w1_def [symmetric] w2_def w3_def)
  have j3: "JOB_QUEUE (notify_one w3) = JOB_QUEUE w1"
    by (simp add: notify_one_def w3_def w2_def CHANGE_REQUEST_TO_NEW_def DELETE_REQUEST_def)
  have cnt: "COUNT_REMAINING_JOBS reqNum tapeId (notify_one w3) = COUNT_REMAINING_JOBS reqNum tapeId w2"
    using j3 by (simp add: COUNT_REMAINING_JOBS_def w2_def)
  have r3: "REQUEST_QUEUE (notify_one w3) =
         (if 0 < COUNT_REMAINING_JOBS reqNum tapeId w2
          then REQUEST_QUEUE (CHANGE_REQUEST_TO_NEW REQ_NEW reqNum tapeId w)
          else REQUEST_QUEUE (DELETE_REQUEST reqNum tapeId w))"
    using rq nonneg [of w2]
    by (simp add: notify_one_def w3_def w2_def CHANGE_REQUEST_TO_NEW_def DELETE_REQUEST_def)
  have e3: "events (notify_one w3) = events w1 @ [Notify]"
    by (simp add: notify_one_def w3_def w2_def CHANGE_REQUEST_TO_NEW_def DELETE_REQUEST_def)
  show ?thesis
  proof (intro exI conjI)
    show "execRequest w reqNum tapeId = Inr (notify_one w3)"
      by (rule ex)
    show "JOB_QUEUE (notify_one w3) = JOB_QUEUE (processFiles w reqNum tapeId)"
      using j3 by (simp only: w1_def)
    show "filter (claimed reqNum RECALLING_MIG RECALLING_PREMIG tapeId) (JOB_QUEUE (notify_one w3)) = []"
      using del by (simp only: j3)
    show "REQUEST_QUEUE (notify_one w3) =
         (if 0 < COUNT_REMAINING_JOBS reqNum tapeId (notify_one w3)
          then REQUEST_QUEUE (CHANGE_REQUEST_TO_NEW REQ_NEW reqNum tapeId w)
          else REQUEST_QUEUE (DELETE_REQUEST reqNum tapeId w))"
      using r3 by (simp only: cnt)
    show "events (notify_one w3) = events (processFiles w reqNum tapeId) @ [Notify]"
      using e3 by (simp only: w1_def)
  qed
qed

theorem execRequest_request_row_witness:
  "cartridges w_exec ''T00001'' = Some \<lparr>c_slot = 1, c_state = TAPE_INUSE\<rparr>
   \<and> list_ex (\<lambda>d. d_slot d = 1) (drives w_exec)
   \<and> (\<exists>w'. execRequest w_exec 1 ''T00001'' = Inr w'
          \<and> JOB_QUEUE w' = [] \<and> REQUEST_QUEUE w' = []
          \<and> events w' = events (processFiles w_exec 1 ''T00001'') @ [Notify])"
proof -
  have c: "cartridges w_exec ''T00001'' = Some \<lparr>c_slot = 1, c_state = TAPE_INUSE\<rparr>"
    by (simp add: w_exec_def ex_world_def)
  have d: "list_ex (\<lambda>d. d_slot d = c_slot \<lparr>c_slot = 1, c_state = TAPE_INUSE\<rparr>) (drives w_exec)"
    by (simp add: w_exec_def ex_world_def)
  have j: "JOB_QUEUE (processFiles w_exec 1 ''T00001'') = []"
    by (simp add: processFiles_jobs claim_jobs_def SET_RECALLING_def w_exec_def ex_world_def
          ex_job_def claimed_def)
  have r: "REQUEST_QUEUE (DELETE_REQUEST 1 ''T00001'' w_exec) = []"
    by (simp add: DELETE_REQUEST_def w_exec_def ex_world_def ex_request_def)
  from execRequest_request_row [OF c d, of 1] obtain w' where
    w': "execRequest w_exec 1 ''T00001'' = Inr w'"
      "JOB_QUEUE w' = JOB_QUEUE (processFiles w_exec 1 ''T00001'')"
      "REQUEST_QUEUE w' =
         (if 0 < COUNT_REMAINING_JOBS 1 ''T00001'' w'
          then REQUEST_QUEUE (CHANGE_REQUEST_TO_NEW REQ_NEW 1 ''T00001'' w_exec)
          else REQUEST_QUEUE (DELETE_REQUEST 1 ''T00001'' w_exec))"
      "events w' = events (processFiles w_exec 1 ''T00001'') @ [Notify]"
    by blast
  have "COUNT_REMAINING_JOBS 1 ''T00001'' w' = 0"
    by (simp add: COUNT_REMAINING_JOBS_def w'(2) j)
  with w' j r have "JOB_QUEUE w' = [] \<and> REQUEST_QUEUE w' = []"
    by simp
  with w'(1,4) c d show ?thesis
    by auto
qed

section \<open>The tape copy of a recall\<close>

lemma fso_write_ok:
  "files w u = Some f \<Longrightarrow> OP_write \<notin> set (fo_faults f) \<Longrightarrow>
   fso_write w u offset n = (n, w\<lparr>files := (files w)(u \<mapsto> f\<lparr>fo_written := fo_written f + n\<rparr>)\<rparr>)"
  by (simp add: fso_write_def fso_guard_def)

lemma forcedTerminate_None [simp]: "forced_at w = None \<Longrightarrow> \<not> forcedTerminate w"
  by (simp add: forcedTerminate_def)

lemma copy_loop_complete:
  assumes "forced_at w = None" "0 < READ_BUFFER_SIZE w" "tf_read_error_at tf = None"
    and "files w u = Some f" "OP_write \<notin> set (fo_faults f)"
    and "0 \<le> offset" "offset \<le> fsize" "fsize = tf_size tf"
  shows "\<exists>k. copy_loop w u tf offset fsize = (Inr (), copied w u f k (fsize - offset))"
  using assms
proof (induction w u tf offset fsize arbitrary: f rule: copy_loop.induct)
  case (1 w u tf offset fsize)
  show ?case
  proof (cases "offset < fsize")
    case False
    with "1.prems" have "offset = fsize" by simp
    moreover have "copied w u f 0 0 = w"
      using "1.prems"(4) by (simp add: copied_def fun_upd_idem)
    ultimately show ?thesis
      using False by (auto simp: copy_loop_done intro: exI [of _ 0])
  next
    case lt: True
    define rsize where "rsize = tape_read tf offset (READ_BUFFER_SIZE w)"
    define w1 where "w1 = after_read w rsize"
    define wr where "wr = fso_write w1 u offset rsize"
    have nf: "\<not> forcedTerminate w" using "1.prems" by simp
    have rs: "rsize = min (READ_BUFFER_SIZE w) (fsize - offset)" "0 < rsize"
      using "1.prems" lt by (auto simp: rsize_def tape_read_def)
    have f1: "files w1 u = Some f" using "1.prems" by (simp add: w1_def after_read_def)
    have wr': "wr = (rsize, w1\<lparr>files := (files w1)(u \<mapsto> f\<lparr>fo_written := fo_written f + rsize\<rparr>)\<rparr>)"
      unfolding wr_def using fso_write_ok [OF f1 "1.prems"(5)] by simp
    define f2 where "f2 = f\<lparr>fo_written := fo_written f + rsize\<rparr>"
    have step: "copy_loop w u tf offset fsize = copy_loop (snd wr) u tf (offset + rsize) fsize"
      using copy_loop_step [OF lt nf rsize_def, of wr u] rs wr' by (simp add: wr_def w1_def)
    have "\<exists>k. copy_loop (snd wr) u tf (offset + rsize) fsize
             = (Inr (), copied (snd wr) u f2 k (fsize - (offset + rsize)))"
    proof (rule "1.IH" [OF lt nf rsize_def w1_def _ _ wr_def])
      show "rsize \<noteq> 0" "rsize \<noteq> - 1" using rs(2) by simp_all
      show "\<not> fst wr \<noteq> rsize" using wr' by simp
      show "forced_at (snd wr) = None" using "1.prems" by (simp add: wr' w1_def after_read_def)
      show "0 < READ_BUFFER_SIZE (snd wr)" using "1.prems" by (simp add: wr' w1_def after_read_def)
      show "tf_read_error_at tf = None" by fact
      show "files (snd wr) u = Some f2" by (simp add: wr' f2_def)
      show "OP_write \<notin> set (fo_faults f2)" using "1.prems" by (simp add: f2_def)
      show "0 \<le> offset + rsize" using "1.prems" rs by simp
      show "offset + rsize \<le> fsize" using rs lt by simp
      show "fsize = tf_size tf" by fact
    qed
    then obtain k where k: "copy_loop (snd wr) u tf (offset + rsize) fsize
             = (Inr (), copied (snd wr) u f2 k (fsize - (offset + rsize)))" ..
    have "copied (snd wr) u f2 k (fsize - (offset + rsize)) = copied w u f (Suc k) (fsize - offset)"
      using rs by (simp add: copied_def wr' w1_def after_read_def f2_def)
    with step k show ?thesis by auto
  qed
qed

lemma fso_ok:
  assumes "files w u = Some f" "fo_faults f = []"
  shows "fso_lock w u = Inr ()" "getMigState w u = Inr (fo_migstate f)"
    "fso_stat w u = Inr (fo_stat f)" "prepareRecall w u = Inr ()"
    "finishRecall w u st = Inr (w\<lparr>files := (files w)(u \<mapsto> f\<lparr>fo_migstate := st\<rparr>),
                                  events := events w @ [FinishRecall u st]\<rparr>)"
    "remAttribute w u = Inr (w\<lparr>files := (files w)(u \<mapsto> f\<lparr>fo_attr := None\<rparr>)\<rparr>)"
  using assms
  by (simp_all add: fso_lock_def getMigState_def fso_stat_def prepareRecall_def finishRecall_def
        remAttribute_def fso_guard_def)

lemma FsObj_ok: "files w (fuid recinfo) = Some f \<Longrightarrow> FsObj w recinfo = Inr (fuid recinfo)"
  by (simp add: FsObj_def)

lemma recall_finish_ok:
  assumes "files w u = Some f" "fo_faults f = []"
  shows "recall_finish w u n st =
     (Inr n, w\<lparr>files := (files w)(u \<mapsto> f\<lparr>fo_migstate := st,
                         fo_attr := (if st = RESIDENT then None else fo_attr f)\<rparr>),
               events := events w @ [FinishRecall u st]\<rparr>)"
proof -
  define w1 where "w1 = w\<lparr>files := (files w)(u \<mapsto> f\<lparr>fo_migstate := st\<rparr>),
                                  events := events w @ [FinishRecall u st]\<rparr>"
  have fin: "finishRecall w u st = Inr w1"
    using fso_ok(5) [OF assms] by (simp add: w1_def)
  have f1: "files w1 u = Some (f\<lparr>fo_migstate := st\<rparr>)" "fo_faults (f\<lparr>fo_migstate := st\<rparr>) = []"
    using assms by (simp_all add: w1_def)
  have rem: "remAttribute w1 u = Inr (w1\<lparr>files := (files w1)(u \<mapsto> f\<lparr>fo_migstate := st, fo_attr := None\<rparr>)\<rparr>)"
    using fso_ok(6) [OF f1] by simp
  show ?thesis
    by (simp add: recall_finish_def fin rem) (simp add: w1_def)
qed

lemma recall_migrated_mismatch:
  assumes fl: "files w u = Some f" "fo_faults f = []" "u = fuid recinfo"
    and tp: "tape_name w u tapeId = Some tn" "tapes w tn = Some tf"
      "tf_read_error_at tf = None" "0 < READ_BUFFER_SIZE w"
    and mm: "tf_fstat_ok tf" "tf_size tf \<noteq> st_size (fo_stat f)" "0 \<le> tf_size tf"
    and unf: "forced_at w = None"
    and m: "m = (if filename recinfo = [] then LTFSDMS0098W else LTFSDMS0097W)"
  shows "\<exists>k. recall_migrated w recinfo u tapeId toState
             = (Inr (tf_size tf, RESIDENT), copied (MSG m w) u f k (tf_size tf))"
proof -
  define w2 where "w2 = MSG m w"
  have file2: "files w2 u = Some f"
    using fl by (simp add: w2_def MSG_def)
  have env2: "forced_at w2 = None" "0 < READ_BUFFER_SIZE w2"
    using tp unf by (simp_all add: w2_def MSG_def)
  have "\<exists>k. copy_loop w2 u tf 0 (tf_size tf) = (Inr (), copied w2 u f k (tf_size tf - 0))"
    using copy_loop_complete [OF env2 tp(3) file2 _ _ _ refl, of 0] fl mm by simp
  then obtain k where loop: "copy_loop w2 u tf 0 (tf_size tf) = (Inr (), copied w2 u f k (tf_size tf))"
    by auto
  have w2: "(if length (filename recinfo) \<noteq> 0 then MSG LTFSDMS0097W w else MSG LTFSDMS0098W w) = w2"
    by (simp add: w2_def m)
  have "recall_migrated w recinfo u tapeId toState
             = (Inr (tf_size tf, RESIDENT), copied w2 u f k (tf_size tf))"
    unfolding recall_migrated_def getTapeName_def fl(3) [symmetric]
    by (simp only: tp sum.case option.case fso_ok(3) [OF fl(1,2)] Let_def mm simp_thms if_True
          w2 fso_ok(4) [OF file2 fl(2)] loop fst_conv snd_conv)
  then show ?thesis unfolding w2_def ..
qed

lemma recall_mismatch:
  assumes fl: "files w (fuid recinfo) = Some f" "fo_faults f = []" "fo_migstate f = MIGRATED"
    and tp: "tape_name w (fuid recinfo) tapeId = Some tn" "tapes w tn = Some tf"
      "tf_read_error_at tf = None" "0 < READ_BUFFER_SIZE w"
    and mm: "tf_fstat_ok tf" "tf_size tf \<noteq> st_size (fo_stat f)" "0 \<le> tf_size tf"
    and unf: "forced_at w = None"
  shows "fst (recall w recinfo tapeId state toState) = Inr (tf_size tf)
     \<and> bytes_read (snd (recall w recinfo tapeId state toState)) = bytes_read w + tf_size tf
     \<and> files (snd (recall w recinfo tapeId state toState)) (fuid recinfo)
         = Some (f\<lparr>fo_migstate := RESIDENT, fo_attr := None,
                    fo_written := fo_written f + tf_size tf\<rparr>)
     \<and> events (snd (recall w recinfo tapeId state toState))
         = events w @ (if state = MIGRATED then [] else [Msg LTFSDMS0034I])
           @ [Msg (if filename recinfo = [] then LTFSDMS0098W else LTFSDMS0097W),
              FinishRecall (fuid recinfo) RESIDENT]"
proof -
  define u where "u = fuid recinfo"
  define m where "m = (if filename recinfo = [] then LTFSDMS0098W else LTFSDMS0097W)"
  define w1 where "w1 = (if MIGRATED \<noteq> state then MSG LTFSDMS0034I w else w)"
  have file1: "files w1 u = Some f"
    using fl by (simp add: w1_def MSG_def u_def)
  have env1: "tape_name w1 u tapeId = Some tn" "tapes w1 tn = Some tf" "0 < READ_BUFFER_SIZE w1"
    "forced_at w1 = None"
    using tp unf by (simp_all add: w1_def MSG_def u_def)
  obtain k where mig: "recall_migrated w1 recinfo u tapeId toState
             = (Inr (tf_size tf, RESIDENT), copied (MSG m w1) u f k (tf_size tf))"
    using recall_migrated_mismatch [OF file1 fl(2) u_def env1(1,2) tp(3) env1(3) mm env1(4) m_def]
    by blast
  define w3 where "w3 = copied (MSG m w1) u f k (tf_size tf)"
  define f3 where "f3 = f\<lparr>fo_written := fo_written f + tf_size tf\<rparr>"
  have file3: "files w3 u = Some f3" "fo_faults f3 = []"
    using fl by (simp_all add: w3_def copied_def f3_def)
  define w4 where "w4 = w3\<lparr>files := (files w3)(u \<mapsto> f3\<lparr>fo_migstate := RESIDENT, fo_attr := None\<rparr>),
               events := events w3 @ [FinishRecall u RESIDENT]\<rparr>"
  have fin: "recall_finish w3 u (tf_size tf) RESIDENT = (Inr (tf_size tf), w4)"
    using recall_finish_ok [OF file3, of "tf_size tf" RESIDENT] by (simp add: w4_def)
  have w1: "(if MIGRATED \<noteq> state then MSG LTFSDMS0034I w else w) = w1"
    by (simp add: w1_def)
  have st1: "(if MIGRATED \<noteq> state then MIGRATED else state) = MIGRATED"
    by simp
  have tr: "recall_try w recinfo tapeId state toState = (Inr (tf_size tf), w4)"
    unfolding recall_try_def
    by (simp only: FsObj_ok [OF fl(1)] sum.case u_def [symmetric] st1
          fso_ok(1,2) [OF fl(1,2), folded u_def] fl(3) Let_def w1 if_cancel
          file_state.distinct if_False if_True simp_thms mig [folded w3_def] fst_conv snd_conv fin)
  have ev4: "events w4 = events w @ (if state = MIGRATED then [] else [Msg LTFSDMS0034I])
           @ [Msg m, FinishRecall u RESIDENT]"
    by (simp add: w4_def w3_def copied_def w1_def MSG_def)
  have br4: "bytes_read w4 = bytes_read w + tf_size tf"
    by (simp add: w4_def w3_def copied_def w1_def MSG_def)
  have fl4: "files w4 u = Some (f\<lparr>fo_migstate := RESIDENT, fo_attr := None,
                    fo_written := fo_written f + tf_size tf\<rparr>)"
    by (simp add: w4_def f3_def)
  show ?thesis
    unfolding recall_def tr Let_def fst_conv snd_conv sum.case
    using ev4 br4 fl4 by (simp only: u_def m_def simp_thms)
qed

lemma copy_loop_eof:
  "offset < fsize \<Longrightarrow> \<not> forcedTerminate w \<Longrightarrow> tape_read tf offset (READ_BUFFER_SIZE w) = 0
   \<Longrightarrow> copy_loop w u tf offset fsize = (Inr (), after_read w 0)"
  using copy_loop_step [of offset fsize w 0 tf "fso_write (after_read w 0) u offset 0" u]
  by simp

lemma recall_zero_size:
  assumes fl: "files w (fuid recinfo) = Some f" "fo_faults f = []" "fo_migstate f = MIGRATED"
      "st_size (fo_stat f) = 0"
    and tp: "tape_name w (fuid recinfo) tapeId = Some tn" "tapes w tn = Some tf"
    and mm: "\<not> (tf_fstat_ok tf \<and> tf_size tf \<noteq> 0)"
  shows "recall w recinfo tapeId state toState =
     (Inr 0,
      w\<lparr>files := (files w)(fuid recinfo \<mapsto>
                   f\<lparr>fo_migstate := toState,
                     fo_attr := (if toState = RESIDENT then None else fo_attr f)\<rparr>),
        events := events w @ (if state = MIGRATED then [] else [Msg LTFSDMS0034I])
                   @ [FinishRecall (fuid recinfo) toState]\<rparr>)"
proof -
  define u where "u = fuid recinfo"
  define w1 where "w1 = (if MIGRATED \<noteq> state then MSG LTFSDMS0034I w else w)"
  have file1: "files w1 u = Some f"
    using fl by (simp add: w1_def MSG_def u_def)
  have env1: "tape_name w1 u tapeId = Some tn" "tapes w1 tn = Some tf"
    using tp by (simp_all add: w1_def MSG_def u_def)
  have nm: "(tf_fstat_ok tf \<and> tf_size tf \<noteq> 0) = False"
    using mm by simp
  have mig: "recall_migrated w1 recinfo u tapeId toState = (Inr (0, toState), w1)"
    unfolding recall_migrated_def getTapeName_def u_def [symmetric]
    by (simp add: env1 fso_ok(3,4) [OF file1 fl(2)] Let_def copy_loop_done fl(4) nm)
  have fin: "recall_finish w1 u 0 toState =
     (Inr 0, w1\<lparr>files := (files w1)(u \<mapsto> f\<lparr>fo_migstate := toState,
                         fo_attr := (if toState = RESIDENT then None else fo_attr f)\<rparr>),
               events := events w1 @ [FinishRecall u toState]\<rparr>)"
    by (rule recall_finish_ok [OF file1 fl(2)])
  have w1: "(if MIGRATED \<noteq> state then MSG LTFSDMS0034I w else w) = w1"
    by (simp add: w1_def)
  have st1: "(if MIGRATED \<noteq> state then MIGRATED else state) = MIGRATED"
    by simp
  have tr: "recall_try w recinfo tapeId state toState =
     (Inr 0, w1\<lparr>files := (files w1)(u \<mapsto> f\<lparr>fo_migstate := toState,
                         fo_attr := (if toState = RESIDENT then None else fo_attr f)\<rparr>),
               events := events w1 @ [FinishRecall u toState]\<rparr>)"
    unfolding recall_try_def
    by (simp only: FsObj_ok [OF fl(1)] sum.case u_def [symmetric] st1
          fso_ok(1,2) [OF fl(1,2), folded u_def] fl(3) Let_def w1 if_cancel
          file_state.distinct if_False if_True simp_thms mig fst_conv snd_conv fin)
  show ?thesis
    unfolding recall_def tr Let_def fst_conv snd_conv sum.case
    by (simp add: w1_def MSG_def u_def)
qed

lemmas ex_defs = uid_def ex_attr_def ex_file_def ex_tape_def ex_event_def ex_tape_name_def
  ex_world_def

section \<open>Size mismatch between tape object and file\<close>

text \<open>
  C4. In recall, for a file that is found migrated, so that its tape object is opened: if
  the size that fstat reports for the tape object differs from the size of the file, then,
  when no operation on the file or the tape fails and the forced-terminate flag is not set,
  exactly the tape's size in bytes is read and written, the file is finalised to RESIDENT
  whatever the target state of the job is, exactly one warning is logged, and the recall
  succeeds.
\<close>

theorem recall_size_mismatch:
  assumes "files w (fuid recinfo) = Some f" "fo_faults f = []" "fo_migstate f = MIGRATED"
    and "tape_name w (fuid recinfo) tapeId = Some tn" "tapes w tn = Some tf"
      "tf_read_error_at tf = None" "0 < READ_BUFFER_SIZE w"
    and "tf_fstat_ok tf" "tf_size tf \<noteq> st_size (fo_stat f)" "0 \<le> tf_size tf"
    and "forced_at w = None"
  shows "fst (recall w recinfo tapeId state toState) = Inr (tf_size tf)
     \<and> bytes_read (snd (recall w recinfo tapeId state toState)) = bytes_read w + tf_size tf
     \<and> files (snd (recall w recinfo tapeId state toState)) (fuid recinfo)
         = Some (f\<lparr>fo_migstate := RESIDENT, fo_attr := None,
                    fo_written := fo_written f + tf_size tf\<rparr>)
     \<and> events (snd (recall w recinfo tapeId state toState))
         = events w @ (if state = MIGRATED then [] else [Msg LTFSDMS0034I])
           @ [Msg (if filename recinfo = [] then LTFSDMS0098W else LTFSDMS0097W),
              FinishRecall (fuid recinfo) RESIDENT]"
  using assms by (rule recall_mismatch)


theorem recall_size_mismatch_witness:
  "files w_mismatch (fuid (ex_event 7 42 False)) = Some (ex_file MIGRATED 10000)
   \<and> tapes w_mismatch ''/T00001/42'' = Some (ex_tape 8192)
   \<and> fst (recall w_mismatch (ex_event 7 42 False) ''T00001'' MIGRATED PREMIGRATED) = Inr 8192
   \<and> bytes_read (snd (recall w_mismatch (ex_event 7 42 False) ''T00001'' MIGRATED PREMIGRATED))
       = 8192
   \<and> map_option fo_migstate
        (files (snd (recall w_mismatch (ex_event 7 42 False) ''T00001'' MIGRATED PREMIGRATED))
           (uid 42)) = Some RESIDENT
   \<and> events (snd (recall w_mismatch (ex_event 7 42 False) ''T00001'' MIGRATED PREMIGRATED))
       = [Msg LTFSDMS0098W, FinishRecall (uid 42) RESIDENT]"
proof -
  have fl: "files w_mismatch (fuid (ex_event 7 42 False)) = Some (ex_file MIGRATED 10000)"
    "fo_faults (ex_file MIGRATED 10000) = []" "fo_migstate (ex_file MIGRATED 10000) = MIGRATED"
    by (simp_all add: w_mismatch_def ex_defs)
  have tp: "tape_name w_mismatch (fuid (ex_event 7 42 False)) ''T00001'' = Some ''/T00001/42''"
    "tapes w_mismatch ''/T00001/42'' = Some (ex_tape 8192)"
    "tf_read_error_at (ex_tape 8192) = None" "0 < READ_BUFFER_SIZE w_mismatch"
    by (simp_all add: w_mismatch_def ex_defs)
  have mm: "tf_fstat_ok (ex_tape 8192)"
    "tf_size (ex_tape 8192) \<noteq> st_size (fo_stat (ex_file MIGRATED 10000))"
    "0 \<le> tf_size (ex_tape 8192)" "forced_at w_mismatch = None"
    by (simp_all add: w_mismatch_def ex_defs)
  have ev: "events w_mismatch = []" "bytes_read w_mismatch = 0"
    "filename (ex_event 7 42 False) = []" "fuid (ex_event 7 42 False) = uid 42"
    "tf_size (ex_tape 8192) = 8192"
    by (simp_all add: w_mismatch_def ex_defs)
  show ?thesis
    using recall_size_mismatch [OF fl tp mm, of MIGRATED PREMIGRATED] fl(1) tp(2)
    by (simp add: ev)
qed

section \<open>End of file and files of size zero\<close>

text \<open>
  C9 (as amended). In the copy loop of recall, a read that returns zero bytes ends the copy
  successfully. For a migrated file of size zero whose tape object does not report a
  different size, no byte is read from tape, the recall succeeds and the file is finalised
  to the target state.
\<close>

theorem recall_zero_read:
  "(offset < fsize \<and> \<not> forcedTerminate w \<and> tape_read tf offset (READ_BUFFER_SIZE w) = 0
      \<longrightarrow> copy_loop w u tf offset fsize = (Inr (), after_read w 0))
   \<and> (files w (fuid recinfo) = Some f \<and> fo_faults f = [] \<and> fo_migstate f = MIGRATED
      \<and> st_size (fo_stat f) = 0
      \<and> tape_name w (fuid recinfo) tapeId = Some tn \<and> tapes w tn = Some tf'
      \<and> \<not> (tf_fstat_ok tf' \<and> tf_size tf' \<noteq> 0)
      \<longrightarrow> fst (recall w recinfo tapeId state toState) = Inr 0
        \<and> bytes_read (snd (recall w recinfo tapeId state toState)) = bytes_read w
        \<and> reads_done (snd (recall w recinfo tapeId state toState)) = reads_done w
        \<and> files (snd (recall w recinfo tapeId state toState)) (fuid recinfo)
            = Some (f\<lparr>fo_migstate := toState,
                      fo_attr := (if toState = RESIDENT then None else fo_attr f)\<rparr>))"
proof (intro conjI impI)
  assume "offset < fsize \<and> \<not> forcedTerminate w \<and> tape_read tf offset (READ_BUFFER_SIZE w) = 0"
  then show "copy_loop w u tf offset fsize = (Inr (), after_read w 0)"
    by (simp add: copy_loop_eof)
next
  assume a: "files w (fuid recinfo) = Some f \<and> fo_faults f = [] \<and> fo_migstate f = MIGRATED
      \<and> st_size (fo_stat f) = 0
      \<and> tape_name w (fuid recinfo) tapeId = Some tn \<and> tapes w tn = Some tf'
      \<and> \<not> (tf_fstat_ok tf' \<and> tf_size tf' \<noteq> 0)"
  then have r: "recall w recinfo tapeId state toState =
     (Inr 0,
      w\<lparr>files := (files w)(fuid recinfo \<mapsto>
                   f\<lparr>fo_migstate := toState,
                     fo_attr := (if toState = RESIDENT then None else fo_attr f)\<rparr>),
        events := events w @ (if state = MIGRATED then [] else [Msg LTFSDMS0034I])
                   @ [FinishRecall (fuid recinfo) toState]\<rparr>)"
    using recall_zero_size [of w recinfo f tapeId tn tf' state toState] by blast
  show "fst (recall w recinfo tapeId state toState) = Inr 0" by (simp add: r)
  show "bytes_read (snd (recall w recinfo tapeId state toState)) = bytes_read w" by (simp add: r)
  show "reads_done (snd (recall w recinfo tapeId state toState)) = reads_done w" by (simp add: r)
  show "files (snd (recall w recinfo tapeId state toState)) (fuid recinfo)
            = Some (f\<lparr>fo_migstate := toState,
                      fo_attr := (if toState = RESIDENT then None else fo_attr f)\<rparr>)"
    by (simp add: r)
qed

theorem recall_zero_read_witness:
  "0 < (100 :: int) \<and> \<not> forcedTerminate w_eof
   \<and> tape_read \<lparr>tf_size = 0, tf_fstat_ok = False, tf_read_error_at = None\<rparr> 0
        (READ_BUFFER_SIZE w_eof) = 0
   \<and> copy_loop w_eof (uid 42) \<lparr>tf_size = 0, tf_fstat_ok = False, tf_read_error_at = None\<rparr> 0 100
       = (Inr (), after_read w_eof 0)
   \<and> files w_zero (uid 42) = Some (ex_file MIGRATED 0)
   \<and> tapes w_zero ''/T00001/42'' = Some (ex_tape 0)
   \<and> fst (recall w_zero (ex_event 7 42 False) ''T00001'' MIGRATED PREMIGRATED) = Inr 0
   \<and> bytes_read (snd (recall w_zero (ex_event 7 42 False) ''T00001'' MIGRATED PREMIGRATED)) = 0
   \<and> map_option fo_migstate
        (files (snd (recall w_zero (ex_event 7 42 False) ''T00001'' MIGRATED PREMIGRATED))
           (uid 42)) = Some PREMIGRATED"
proof -
  have a: "(0 :: int) < 100 \<and> \<not> forcedTerminate w_eof
   \<and> tape_read \<lparr>tf_size = 0, tf_fstat_ok = False, tf_read_error_at = None\<rparr> 0
        (READ_BUFFER_SIZE w_eof) = 0"
    by (simp add: w_eof_def ex_world_def forcedTerminate_def tape_read_def)
  have b: "files w_zero (fuid (ex_event 7 42 False)) = Some (ex_file MIGRATED 0)
      \<and> fo_faults (ex_file MIGRATED 0) = [] \<and> fo_migstate (ex_file MIGRATED 0) = MIGRATED
      \<and> st_size (fo_stat (ex_file MIGRATED 0)) = 0
      \<and> tape_name w_zero (fuid (ex_event 7 42 False)) ''T00001'' = Some ''/T00001/42''
      \<and> tapes w_zero ''/T00001/42'' = Some (ex_tape 0)
      \<and> \<not> (tf_fstat_ok (ex_tape 0) \<and> tf_size (ex_tape 0) \<noteq> 0)"
    by (simp add: w_zero_def ex_defs)
  have c: "fuid (ex_event 7 42 False) = uid 42" "bytes_read w_zero = 0"
    by (simp_all add: w_zero_def ex_defs)
  note p1 = recall_zero_read [where offset = 0 and fsize = 100 and w = w_eof
        and tf = "\<lparr>tf_size = 0, tf_fstat_ok = False, tf_read_error_at = None\<rparr>"
        and u = "uid 42", THEN conjunct1, rule_format, OF a]
  note p2 = recall_zero_read [where w = w_zero and recinfo = "ex_event 7 42 False"
        and f = "ex_file MIGRATED 0" and tapeId = "''T00001''" and tn = "''/T00001/42''"
        and tf' = "ex_tape 0" and state = MIGRATED and toState = PREMIGRATED,
        THEN conjunct2, rule_format, OF b]
  show ?thesis
    using a b p1 p2 by (simp add: c)
qed

text \<open>
  C9 as stated fails: a migrated file of size zero whose tape object reports 5 bytes. The
  sizes differ, the tape size is trusted, 5 bytes are read from tape and the file becomes
  resident, although the target state was premigrated.
\<close>

theorem recall_zero_size_counterexample:
  "map_option (\<lambda>f. st_size (fo_stat f)) (files w_zero_mismatch (uid 42)) = Some 0
   \<and> bytes_read w_zero_mismatch = 0
   \<and> fst (recall w_zero_mismatch (ex_event 7 42 False) ''T00001'' MIGRATED PREMIGRATED) = Inr 5
   \<and> bytes_read (snd (recall w_zero_mismatch (ex_event 7 42 False) ''T00001'' MIGRATED
        PREMIGRATED)) = 5
   \<and> map_option fo_migstate
        (files (snd (recall w_zero_mismatch (ex_event 7 42 False) ''T00001'' MIGRATED
           PREMIGRATED)) (uid 42)) = Some RESIDENT"
proof -
  have fl: "files w_zero_mismatch (fuid (ex_event 7 42 False)) = Some (ex_file MIGRATED 0)"
    "fo_faults (ex_file MIGRATED 0) = []" "fo_migstate (ex_file MIGRATED 0) = MIGRATED"
    by (simp_all add: w_zero_mismatch_def ex_defs)
  have tp: "tape_name w_zero_mismatch (fuid (ex_event 7 42 False)) ''T00001'' = Some ''/T00001/42''"
    "tapes w_zero_mismatch ''/T00001/42'' = Some (ex_tape 5)"
    "tf_read_error_at (ex_tape 5) = None" "0 < READ_BUFFER_SIZE w_zero_mismatch"
    by (simp_all add: w_zero_mismatch_def ex_defs)
  have mm: "tf_fstat_ok (ex_tape 5)"
    "tf_size (ex_tape 5) \<noteq> st_size (fo_stat (ex_file MIGRATED 0))"
    "0 \<le> tf_size (ex_tape 5)" "forced_at w_zero_mismatch = None"
    by (simp_all add: w_zero_mismatch_def ex_defs)
  have ev: "bytes_read w_zero_mismatch = 0" "fuid (ex_event 7 42 False) = uid 42"
    "tf_size (ex_tape 5) = 5" "st_size (fo_stat (ex_file MIGRATED 0)) = 0"
    by (simp_all add: w_zero_mismatch_def ex_defs)
  show ?thesis
    using recall_mismatch [OF fl tp mm, of MIGRATED PREMIGRATED] fl(1)
    by (simp add: ev)
qed

section \<open>Forced termination\<close>

lemma no_read_refl [simp]: "no_read w w"
  by (simp add: no_read_def)



lemma no_read_MSG [simp]: "no_read w (MSG m w)"
  by (simp add: no_read_def MSG_def)

lemma forcedTerminate_MSG [simp]: "forcedTerminate (MSG m w) = forcedTerminate w"
  by (simp add: forcedTerminate_def MSG_def split: option.splits)








lemma length_process_rows:
  "length (snd (process_rows tapeId rows s resplist)) = length resplist + length rows"
  by (induction rows arbitrary: s resplist) (simp_all add: case_prod_beta)










section \<open>Events for files that are already resident\<close>

lemma run_iteration_resident:
  assumes "conn_info recinfo \<noteq> 0" "inum (fuid recinfo) \<noteq> 0"
    and "files w (fuid recinfo) = Some f" "OP_getMigState \<notin> set (fo_faults f)"
      "OP_finishRecall \<notin> set (fo_faults f)" "fo_migstate f = RESIDENT"
  shows "run_iteration (Inr recinfo) False (rc, w)
         = (rc\<lparr>rc_recinfo := recinfo\<rparr>,
            respondRecallEvent recinfo True
              (MSG LTFSDMS0039I
                 (w\<lparr>files := (files w)(fuid recinfo \<mapsto> f\<lparr>fo_migstate := RESIDENT\<rparr>),
                    events := events w @ [FinishRecall (fuid recinfo) RESIDENT]\<rparr>)))"
  using assms
  by (simp add: run_iteration_def FsObj_def getMigState_def fso_guard_def finishRecall_def)

lemma addJob_resident:
  assumes "files w (fuid recinfo) = Some f" "OP_stat \<notin> set (fo_faults f)"
    "OP_getMigState \<notin> set (fo_faults f)" "st_isreg (fo_stat f)" "fo_migstate f = RESIDENT"
  shows "addJob w recinfo tapeId reqNum
         = (Inr (), respondRecallEvent recinfo True (MSG LTFSDMS0031I w))"
  using assms
  by (simp add: addJob_def addJob_try_def FsObj_def fso_stat_def getMigState_def fso_guard_def
        Let_def)

text \<open>
  C7. For an accepted event that the receiver gets while the terminate flag is not set,
  whose file it can open and finds RESIDENT: the receiver finalises the file as resident,
  responds success at once, hands no task to the pool and leaves both queues as they are.
  The same event in addJob (the file has become resident in between) is answered with
  success without a job row or a request row, when the file is a regular file.
\<close>

theorem receiver_resident:
  assumes "conn_info recinfo \<noteq> 0" "inum (fuid recinfo) \<noteq> 0"
    and "files w (fuid recinfo) = Some f" "fo_faults f = []" "fo_migstate f = RESIDENT"
  shows "rc_pool (fst (run_iteration (Inr recinfo) False (rc, w))) = rc_pool rc
     \<and> JOB_QUEUE (snd (run_iteration (Inr recinfo) False (rc, w))) = JOB_QUEUE w
     \<and> REQUEST_QUEUE (snd (run_iteration (Inr recinfo) False (rc, w))) = REQUEST_QUEUE w
     \<and> events (snd (run_iteration (Inr recinfo) False (rc, w)))
         = events w @ [FinishRecall (fuid recinfo) RESIDENT, Msg LTFSDMS0039I,
                       Respond recinfo True]
     \<and> (if st_isreg (fo_stat f)
        then addJob w recinfo tapeId reqNum
             = (Inr (), w\<lparr>events := events w @ [Msg LTFSDMS0031I, Respond recinfo True]\<rparr>)
        else addJob w recinfo tapeId reqNum
             = (Inr (), w\<lparr>events := events w @ [Msg LTFSDMS0032E]\<rparr>))"
proof -
  have a: "run_iteration (Inr recinfo) False (rc, w)
         = (rc\<lparr>rc_recinfo := recinfo\<rparr>,
            respondRecallEvent recinfo True
              (MSG LTFSDMS0039I
                 (w\<lparr>files := (files w)(fuid recinfo \<mapsto> f\<lparr>fo_migstate := RESIDENT\<rparr>),
                    events := events w @ [FinishRecall (fuid recinfo) RESIDENT]\<rparr>)))"
    using assms by (intro run_iteration_resident) simp_all
  have b: "st_isreg (fo_stat f) \<Longrightarrow> addJob w recinfo tapeId reqNum
         = (Inr (), respondRecallEvent recinfo True (MSG LTFSDMS0031I w))"
    using assms by (intro addJob_resident) simp_all
  have c: "\<not> st_isreg (fo_stat f) \<Longrightarrow> addJob w recinfo tapeId reqNum
         = (Inr (), MSG LTFSDMS0032E w)"
    using assms
    by (simp add: addJob_def addJob_try_def FsObj_def fso_stat_def fso_guard_def Let_def)
  show ?thesis
    unfolding a using b c by (simp add: respondRecallEvent_def MSG_def)
qed

theorem receiver_resident_witness:
  "conn_info (ex_event 7 42 False) \<noteq> 0 \<and> inum (fuid (ex_event 7 42 False)) \<noteq> 0
   \<and> files w_resident (fuid (ex_event 7 42 False)) = Some (ex_file RESIDENT 4096)
   \<and> rc_pool (fst (run_iteration (Inr (ex_event 7 42 False)) False
        (\<lparr>rc_recinfo = uninit_recinfo w_resident, rc_reqmap = (\<lambda>t. None), rc_tapeId = [],
          rc_pool = []\<rparr>, w_resident))) = []
   \<and> JOB_QUEUE (snd (run_iteration (Inr (ex_event 7 42 False)) False
        (\<lparr>rc_recinfo = uninit_recinfo w_resident, rc_reqmap = (\<lambda>t. None), rc_tapeId = [],
          rc_pool = []\<rparr>, w_resident))) = []
   \<and> REQUEST_QUEUE (snd (run_iteration (Inr (ex_event 7 42 False)) False
        (\<lparr>rc_recinfo = uninit_recinfo w_resident, rc_reqmap = (\<lambda>t. None), rc_tapeId = [],
          rc_pool = []\<rparr>, w_resident))) = []
   \<and> events (snd (run_iteration (Inr (ex_event 7 42 False)) False
        (\<lparr>rc_recinfo = uninit_recinfo w_resident, rc_reqmap = (\<lambda>t. None), rc_tapeId = [],
          rc_pool = []\<rparr>, w_resident)))
       = [FinishRecall (uid 42) RESIDENT, Msg LTFSDMS0039I, Respond (ex_event 7 42 False) True]"
proof -
  have h: "conn_info (ex_event 7 42 False) \<noteq> 0" "inum (fuid (ex_event 7 42 False)) \<noteq> 0"
    "files w_resident (fuid (ex_event 7 42 False)) = Some (ex_file RESIDENT 4096)"
    "fo_faults (ex_file RESIDENT 4096) = []" "fo_migstate (ex_file RESIDENT 4096) = RESIDENT"
    by (simp_all add: w_resident_def ex_defs)
  have v: "JOB_QUEUE w_resident = []" "REQUEST_QUEUE w_resident = []" "events w_resident = []"
    "fuid (ex_event 7 42 False) = uid 42"
    by (simp_all add: w_resident_def ex_defs)
  show ?thesis
    using receiver_resident [OF h, where rc = "\<lparr>rc_recinfo = uninit_recinfo w_resident,
        rc_reqmap = (\<lambda>t. None), rc_tapeId = [], rc_pool = []\<rparr>"] h(1,2,3)
    by (simp add: v)
qed

section \<open>addJob after a failure in its try block\<close>

lemmas addJob_defs = addJob_def addJob_try_def addJob_catch_def job_row_def ADD_JOB_def
  job_conflict_def CHECK_REQUEST_EXISTS_def CHANGE_REQUEST_TO_NEW_def ADD_REQUEST_def
  notify_one_def getStartBlock_def FsObj_def fso_stat_def getMigState_def getAttribute_def
  getTapeName_def fso_guard_def MSG_def respondRecallEvent_def Let_def UNSET_def

text \<open>
  C3, evaluated where the code departs from it. The stat of the file raises: addJob logs,
  does not return, inserts a job row built from its uninitialised locals and creates a
  request row. The same happens when the read of the migration state, the read of the
  attribute or the resolution of the tape name raises. No response is sent.
\<close>

theorem addJob_stat_failure_inserts:
  "fst (addJob w_stat_fails (ex_event 7 42 False) ''T00001'' 1) = Inr ()
   \<and> JOB_QUEUE (snd (addJob w_stat_fails (ex_event 7 42 False) ''T00001'' 1))
      = [\<lparr>j_operation = TRARECALL, j_file_name = None, j_req_num = 1,
          j_target_state = PREMIGRATED, j_repl_num = - 1, j_file_size = 0, j_fuid = uid 42,
          j_mtime_sec = 0, j_mtime_nsec = 0, j_last_upd = 1000, j_file_state = RESIDENT,
          j_tape_id = ''T00001'', j_start_block = - 1, j_conn_info = 7\<rparr>]
   \<and> REQUEST_QUEUE (snd (addJob w_stat_fails (ex_event 7 42 False) ''T00001'' 1))
      = [\<lparr>r_operation = TRARECALL, r_req_num = 1, r_tape_id = [], r_time_added = 1000,
          r_state = REQ_NEW\<rparr>]
   \<and> events (snd (addJob w_stat_fails (ex_event 7 42 False) ''T00001'' 1))
      = [Msg LTFSDMS0032E, Notify]
   \<and> length (JOB_QUEUE (snd (addJob w_migstate_fails (ex_event 7 42 False) ''T00001'' 1))) = 1
   \<and> length (REQUEST_QUEUE (snd (addJob w_migstate_fails (ex_event 7 42 False) ''T00001'' 1))) = 1
   \<and> length (JOB_QUEUE (snd (addJob w_attr_fails (ex_event 7 42 False) ''T00001'' 1))) = 1
   \<and> length (REQUEST_QUEUE (snd (addJob w_attr_fails (ex_event 7 42 False) ''T00001'' 1))) = 1
   \<and> getTapeName w_regular (uid 42) ''T00009'' = Inl GENERAL_ERROR
   \<and> length (JOB_QUEUE (snd (addJob w_regular (ex_event 7 42 False) ''T00009'' 1))) = 1
   \<and> length (REQUEST_QUEUE (snd (addJob w_regular (ex_event 7 42 False) ''T00009'' 1))) = 1"
  by (simp add: w_stat_fails_def w_migstate_fails_def w_attr_fails_def w_regular_def ex_defs
        addJob_defs)

text \<open>
  C5, evaluated where the code departs from it. The new request row carries the first tape
  id of the attribute that addJob has read itself, not the tape id it was called with: the
  uninitialised attribute when the read raises, and another tape when the attribute lists
  another tape first. The job row carries the tape id of the call.
\<close>

theorem addJob_request_tape_id:
  "map j_tape_id (JOB_QUEUE (snd (addJob w_attr_fails (ex_event 7 42 False) ''T00001'' 1)))
     = [''T00001'']
   \<and> REQUEST_QUEUE (snd (addJob w_attr_fails (ex_event 7 42 False) ''T00001'' 1))
      = [\<lparr>r_operation = TRARECALL, r_req_num = 1, r_tape_id = [], r_time_added = 1000,
          r_state = REQ_NEW\<rparr>]
   \<and> map j_tape_id (JOB_QUEUE (snd (addJob w_attr_other (ex_event 7 42 False) ''T00001'' 1)))
     = [''T00001'']
   \<and> REQUEST_QUEUE (snd (addJob w_attr_other (ex_event 7 42 False) ''T00001'' 1))
      = [\<lparr>r_operation = TRARECALL, r_req_num = 1, r_tape_id = ''T00002'', r_time_added = 1000,
          r_state = REQ_NEW\<rparr>]"
  by (simp add: w_attr_fails_def w_attr_other_def ex_defs addJob_defs)

section \<open>Exactly one response\<close>

lemma responses_to_append [simp]:
  "responses_to c (xs @ ys) = responses_to c xs @ responses_to c ys"
  by (induction c xs rule: responses_to.induct) simp_all







lemma jobc_sort_key [simp]: "jobc c (sort_key f xs) = jobc c xs"
  by (simp add: jobc_def filter_sort)


lemma jobc_map: "(\<And>x. j_conn_info (g x) = j_conn_info x) \<Longrightarrow> jobc c (map g xs) = jobc c xs"
  by (induction xs) (simp_all add: jobc_def)

lemma jobc_SET_RECALLING [simp]:
  "jobc c (JOB_QUEUE (SET_RECALLING new reqNum old tapeId w)) = jobc c (JOB_QUEUE w)"
  by (simp add: SET_RECALLING_def jobc_map)

lemma jobc_claim_jobs [simp]: "jobc c (JOB_QUEUE (claim_jobs w reqNum tapeId)) = jobc c (JOB_QUEUE w)"
  by (simp add: claim_jobs_def)



lemma respc_Notify [simp]: "responses_to c (es @ [Notify]) = responses_to c es"
  by simp



lemma respond_all_files [simp]: "files (respond_all resplist w) = files w"
  by (induction resplist arbitrary: w) (simp_all add: respondRecallEvent_def)


lemma is_src_file_state [simp]: "is_src ri (j\<lparr>j_file_state := st\<rparr>) = is_src ri j"
  by (simp add: is_src_def)



lemma run_catch_fields [simp]:
  "JOB_QUEUE (run_catch e ri w) = JOB_QUEUE w"
  "files (run_catch e ri w) = files w"
  "responses_to c (events (run_catch e ri w))
     = responses_to c (events w) @ (if conn_info ri = c then [False] else [])"
  by (cases e; simp add: run_catch_def respondRecallEvent_def MSG_def)+

lemma run_iteration_jobs [simp]:
  "JOB_QUEUE (snd (run_iteration ev terminate s)) = JOB_QUEUE (snd s)"
  by (cases ev)
     (auto simp: run_iteration_def Let_def respondRecallEvent_def MSG_def finishRecall_def
           split: sum.splits)






lemma addJob_try_Inr:
  "addJob_try w ri t n = Inr (l, w1) \<Longrightarrow> w1 = w \<or> w1 = addJob_catch n w"
  by (auto simp: addJob_try_def Let_def split: sum.splits if_splits)


lemma addJob_catch_fields [simp]:
  "JOB_QUEUE (addJob_catch n w) = JOB_QUEUE w" "files (addJob_catch n w) = files w"
  "responses_to c (events (addJob_catch n w)) = responses_to c (events w)"
  by (simp_all add: addJob_catch_def MSG_def)


lemma addJob_files [simp]: "files (snd (addJob w ri t r)) = files w"
proof (cases "addJob_try w ri t (if filename ri = [] then ''NULL''
                      else [CHR 0x27] @ filename ri @ [CHR 0x27])")
  case (Inl w1)
  then have "files w1 = files w"
    by (auto simp: addJob_try_def Let_def respondRecallEvent_def MSG_def
             split: sum.splits if_splits)
  with Inl show ?thesis
    by (simp add: addJob_def Let_def)
next
  case (Inr p)
  obtain l w1 where p: "p = (l, w1)" by (cases p)
  from addJob_try_Inr [OF Inr [unfolded p]] have "files w1 = files w"
    by auto
  then show ?thesis
    by (simp add: addJob_def Let_def Inr p ADD_JOB_def notify_one_def CHANGE_REQUEST_TO_NEW_def
          ADD_REQUEST_def)
qed




lemma owed_append [simp]: "owed c (xs @ ys) = owed c xs + owed c ys"
  by (simp add: owed_def)

lemma owed_Cons [simp]:
  "owed c (x # xs) = (if conn_info (fst x) = c then expected (snd x) (fst x) else 0) + owed c xs"
  by (simp add: owed_def)

lemma owed_Nil [simp]: "owed c [] = 0"
  by (simp add: owed_def)






















end
